theory Spec2Isabelle
  imports Complex_Main
begin

section \<open>JavaScript string helpers\<close>

text \<open>\<^verbatim>\<open>String.prototype.startsWith\<close>, \<^verbatim>\<open>endsWith\<close> and \<^verbatim>\<open>includes\<close> on byte strings.\<close>

definition startsWith :: "string \<Rightarrow> string \<Rightarrow> bool" where
  "startsWith s t = (take (length t) s = t)"

definition endsWith :: "string \<Rightarrow> string \<Rightarrow> bool" where
  "endsWith s t = (length t \<le> length s \<and> drop (length s - length t) s = t)"

fun str_includes :: "string \<Rightarrow> string \<Rightarrow> bool" where
  "str_includes [] t = (t = [])"
| "str_includes (c # cs) t = (startsWith (c # cs) t \<or> str_includes cs t)"

text \<open>\<^verbatim>\<open>toLowerCase\<close> on the ASCII letters; every other byte is kept.\<close>

definition lowerChar :: "char \<Rightarrow> char" where
  "lowerChar c =
     (case map_of (zip ''ABCDEFGHIJKLMNOPQRSTUVWXYZ'' ''abcdefghijklmnopqrstuvwxyz'') c of
        Some l \<Rightarrow> l
      | None \<Rightarrow> c)"

definition toLowerCase :: "string \<Rightarrow> string" where
  "toLowerCase s = map lowerChar s"

text \<open>Decimal rendering of a number inside a template string.\<close>

function show_nat :: "nat \<Rightarrow> string" where
  "show_nat n = (if n < 10 then [''0123456789'' ! n]
                 else show_nat (n div 10) @ [''0123456789'' ! (n mod 10)])"
  by pat_completeness auto
termination
  by (relation "measure (\<lambda>n. n)") auto

declare show_nat.simps [simp del]

definition show_int :: "int \<Rightarrow> string" where
  "show_int i = (if i < 0 then CHR ''-'' # show_nat (nat (- i)) else show_nat (nat i))"

section \<open>Error taxonomy (errors.ts)\<close>

text \<open>The enum \<^verbatim>\<open>ErrorCode\<close>. The circuit breaker casts the string
  \<^verbatim>\<open>'CIRCUIT_BREAKER_OPEN'\<close> into the enum; it is the last constructor here.\<close>

datatype ErrorCode =
    INVALID_CONFIG | MISSING_CREDENTIALS | INVALID_CREDENTIALS
  | GIT_INIT_FAILED | GIT_REMOTE_FAILED | GIT_PULL_FAILED | GIT_PUSH_FAILED
  | GIT_COMMIT_FAILED | GIT_MERGE_CONFLICT
  | NETWORK_ERROR | AUTHENTICATION_FAILED | REMOTE_NOT_FOUND
  | PATH_NOT_FOUND | PERMISSION_DENIED | DISK_FULL
  | WEBHOOK_START_FAILED | WEBHOOK_VALIDATION_FAILED
  | SYNC_IN_PROGRESS | UNKNOWN_ERROR
  | CIRCUIT_BREAKER_OPEN

text \<open>A thrown value: a \<^verbatim>\<open>GitSyncError\<close> (or a subclass of it) with its code, message
  and \<^verbatim>\<open>isRecoverable\<close> flag, or any other error, of which only the optional
  \<^verbatim>\<open>message\<close> is ever read.\<close>

datatype js_error =
    GitSyncError ErrorCode string bool
  | PlainError "string option"

fun message :: "js_error \<Rightarrow> string option" where
  "message (GitSyncError c m r) = Some m"
| "message (PlainError m) = m"

fun code :: "js_error \<Rightarrow> ErrorCode option" where
  "code (GitSyncError c m r) = Some c"
| "code (PlainError m) = None"

fun isRecoverable :: "js_error \<Rightarrow> bool" where
  "isRecoverable (GitSyncError c m r) = r"
| "isRecoverable (PlainError m) = False"

text \<open>\<^verbatim>\<open>error.message?.includes(t)\<close>: false when there is no message.\<close>

definition messageIncludes :: "js_error \<Rightarrow> string \<Rightarrow> bool" where
  "messageIncludes e t = (case message e of None \<Rightarrow> False | Some m \<Rightarrow> str_includes m t)"

definition ConfigurationError :: "string \<Rightarrow> js_error" where
  "ConfigurationError m = GitSyncError INVALID_CONFIG m False"

definition GitOperationError :: "ErrorCode \<Rightarrow> string \<Rightarrow> bool \<Rightarrow> js_error" where
  "GitOperationError c m r = GitSyncError c m r"

definition NetworkError :: "string \<Rightarrow> js_error" where
  "NetworkError m = GitSyncError NETWORK_ERROR m True"

definition AuthenticationError :: "string \<Rightarrow> js_error" where
  "AuthenticationError m = GitSyncError AUTHENTICATION_FAILED m False"

text \<open>\<^verbatim>\<open>ErrorHandler.handle\<close>: the classification, in the order of the source. An empty
  message is falsy, so it falls to the default bucket like a missing one.\<close>

definition handle :: "js_error \<Rightarrow> js_error" where
  "handle error =
    (case error of
       GitSyncError c m r \<Rightarrow> error
     | PlainError None \<Rightarrow> GitSyncError UNKNOWN_ERROR ''An unknown error occurred.'' True
     | PlainError (Some msg) \<Rightarrow>
        if msg = [] then GitSyncError UNKNOWN_ERROR ''An unknown error occurred.'' True
        else let m = toLowerCase msg in
          if str_includes m ''authentication failed'' \<or>
             str_includes m ''invalid username or password'' \<or>
             (str_includes m ''permission denied'' \<and>
               (str_includes m ''git'' \<or> str_includes m ''remote''))
          then AuthenticationError ''Git authentication failed. Please check your credentials.''
          else if str_includes m ''could not resolve host'' \<or>
                  str_includes m ''network is unreachable'' \<or>
                  str_includes m ''connection refused''
          then NetworkError ''Network error occurred while syncing.''
          else if str_includes m ''repository not found'' \<or> str_includes m ''does not exist''
          then GitOperationError REMOTE_NOT_FOUND ''Remote repository not found.'' False
          else if str_includes m ''merge conflict'' \<or> str_includes m ''automatic merge failed''
          then GitOperationError GIT_MERGE_CONFLICT
                 ''Merge conflict detected. Manual resolution required.'' False
          else if str_includes m ''enoent'' \<or> str_includes m ''no such file''
          then GitSyncError PATH_NOT_FOUND ''Path not found.'' True
          else if str_includes m ''eacces'' \<or> str_includes m ''permission denied''
          then GitSyncError PERMISSION_DENIED ''Permission denied accessing file system.'' False
          else if str_includes m ''enospc'' \<or> str_includes m ''no space left''
          then GitSyncError DISK_FULL ''Disk space full.'' False
          else if str_includes m ''spawn eio'' \<or> str_includes m ''spawn EIO''
          then GitSyncError UNKNOWN_ERROR
                 ''Process spawn error (EIO). This often occurs in Docker environments.'' False
          else GitSyncError UNKNOWN_ERROR msg True)"

definition shouldRetry :: "js_error \<Rightarrow> bool" where
  "shouldRetry error =
     (isRecoverable error \<and>
      (case code error of
         None \<Rightarrow> False
       | Some c \<Rightarrow> c \<in> set [NETWORK_ERROR, GIT_PULL_FAILED, GIT_PUSH_FAILED]))"

section \<open>RetryManager (retry-manager.ts)\<close>

text \<open>Delays are JavaScript numbers (milliseconds), modelled as reals; \<^verbatim>\<open>maxRetries\<close> is a
  count. \<^verbatim>\<open>onRetry\<close> records whether the optional callback is set.\<close>

record RetryOptions =
  maxRetries :: nat
  initialDelay :: real
  maxDelay :: real
  backoffFactor :: real
  onRetry :: bool

record PartialRetryOptions =
  p_maxRetries :: "nat option"
  p_initialDelay :: "real option"
  p_maxDelay :: "real option"
  p_backoffFactor :: "real option"
  p_onRetry :: "bool option"

definition DEFAULT_RETRY_OPTIONS :: RetryOptions where
  "DEFAULT_RETRY_OPTIONS =
     \<lparr>maxRetries = 3, initialDelay = 1000, maxDelay = 30000, backoffFactor = 2, onRetry = False\<rparr>"

definition no_overrides :: PartialRetryOptions where
  "no_overrides = \<lparr>p_maxRetries = None, p_initialDelay = None, p_maxDelay = None,
     p_backoffFactor = None, p_onRetry = None\<rparr>"

text \<open>The object spread \<^verbatim>\<open>{ ...base, ...overrides }\<close>.\<close>

definition spread :: "RetryOptions \<Rightarrow> PartialRetryOptions \<Rightarrow> RetryOptions" where
  "spread base ov =
     \<lparr>maxRetries = (case p_maxRetries ov of Some v \<Rightarrow> v | None \<Rightarrow> maxRetries base),
      initialDelay = (case p_initialDelay ov of Some v \<Rightarrow> v | None \<Rightarrow> initialDelay base),
      maxDelay = (case p_maxDelay ov of Some v \<Rightarrow> v | None \<Rightarrow> maxDelay base),
      backoffFactor = (case p_backoffFactor ov of Some v \<Rightarrow> v | None \<Rightarrow> backoffFactor base),
      onRetry = (case p_onRetry ov of Some v \<Rightarrow> v | None \<Rightarrow> onRetry base)\<rparr>"

definition RetryManager :: "PartialRetryOptions \<Rightarrow> RetryOptions" where
  "RetryManager options = spread DEFAULT_RETRY_OPTIONS options"

text \<open>What the retry loop itself does between two attempts: the \<^verbatim>\<open>onRetry\<close>
  notification (with the classified error and \<^verbatim>\<open>attempt + 1\<close>) and the sleep.\<close>

datatype retry_event = Notify js_error nat | Sleep real

text \<open>An operation is a state transformer that returns a value or throws. The loop
  \<^verbatim>\<open>for (attempt = 0; attempt <= maxRetries; attempt++)\<close> of \<^verbatim>\<open>executeWithRetry\<close>, with
  \<^verbatim>\<open>lastError\<close>, the state of the world and the list of the loop's own effects so far.\<close>

function retry_loop ::
  "RetryOptions \<Rightarrow> string \<Rightarrow> ('s \<Rightarrow> (js_error + 'a) \<times> 's) \<Rightarrow> nat \<Rightarrow> js_error option \<Rightarrow>
   's \<Rightarrow> retry_event list \<Rightarrow> (js_error + 'a) \<times> 's \<times> retry_event list" where
  "retry_loop options operationName operation attempt lastError s slept =
    (if attempt \<le> maxRetries options then
       (case operation s of
          (Inr v, s') \<Rightarrow> (Inr v, s', slept)
        | (Inl error, s') \<Rightarrow>
            let lastError' = handle error in
            if \<not> shouldRetry lastError' then (Inl lastError', s', slept)
            else if attempt = maxRetries options then (Inl lastError', s', slept)
            else
              let delay = min (initialDelay options * backoffFactor options ^ attempt)
                              (maxDelay options);
                  slept' = slept @ (if onRetry options then [Notify lastError' (attempt + 1)] else [])
                             @ [Sleep delay]
              in retry_loop options operationName operation (attempt + 1) (Some lastError') s' slept')
     else
       (case lastError of
          Some e \<Rightarrow> (Inl e, s, slept)
        | None \<Rightarrow>
            (Inl (PlainError (Some (operationName @ '' failed after '' @
                                    show_nat (maxRetries options) @ '' retries''))), s, slept)))"
  by pat_completeness auto
termination
  by (relation "measure (\<lambda>(options, n, operation, attempt, le, s, slept).
        Suc (maxRetries options) - attempt)") auto

declare retry_loop.simps [simp del]

definition executeWithRetry ::
  "RetryOptions \<Rightarrow> ('s \<Rightarrow> (js_error + 'a) \<times> 's) \<Rightarrow> string \<Rightarrow> PartialRetryOptions \<Rightarrow>
   's \<Rightarrow> (js_error + 'a) \<times> 's \<times> retry_event list" where
  "executeWithRetry this_options operation operationName customOptions s =
     retry_loop (spread this_options customOptions) operationName operation 0 None s []"

subsection \<open>Observing a run of the retry loop\<close>


text \<open>The state of the world after \<open>k\<close> invocations of the operation.\<close>

definition after :: "('s \<Rightarrow> (js_error + 'a) \<times> 's) \<Rightarrow> nat \<Rightarrow> 's \<Rightarrow> 's" where
  "after operation k s = ((\<lambda>s. snd (operation s)) ^^ k) s"



section \<open>CircuitBreaker (retry-manager.ts)\<close>

datatype CircuitState = CLOSED | OPEN | HALF_OPEN

text \<open>Times are \<^verbatim>\<open>Date.now()\<close> values: integer milliseconds.\<close>

record CircuitBreaker =
  failureCount :: int
  lastFailureTime :: "int option"
  state :: CircuitState
  failureThreshold :: int
  resetTimeout :: int

definition new_CircuitBreaker :: "int \<Rightarrow> int \<Rightarrow> CircuitBreaker" where
  "new_CircuitBreaker threshold timeout =
     \<lparr>failureCount = 0, lastFailureTime = None, state = CLOSED,
      failureThreshold = threshold, resetTimeout = timeout\<rparr>"

definition default_CircuitBreaker :: CircuitBreaker where
  "default_CircuitBreaker = new_CircuitBreaker 5 60000"








section \<open>SyncQueue (sync-queue.ts)\<close>

text \<open>A queue item. \<open>item_id\<close> and \<open>item_operation\<close> are the fields \<^verbatim>\<open>id\<close> and
  \<^verbatim>\<open>operation\<close>; the operation is kept as a value of any type \<open>'op\<close> that names the closure.\<close>

record 'op QueueItem =
  item_id :: string
  item_operation :: 'op
  priority :: int
  timestamp :: int
  retries :: nat

text \<open>How a promise ends.\<close>

datatype 'r settlement = Resolved 'r | Rejected js_error

text \<open>
  The queue object and, with it, what the event loop holds of its asynchronous methods:
  \<^item> \<open>queue\<close>, \<open>processing\<close>, \<open>q_maxRetries\<close>: the fields \<^verbatim>\<open>queue\<close>, \<^verbatim>\<open>processing\<close>,
    \<^verbatim>\<open>maxRetries\<close>;
  \<^item> \<open>inflight\<close>: the items that an activation of \<^verbatim>\<open>process()\<close> has shifted off the queue
    and whose operation it awaits;
  \<^item> \<open>sleeping\<close>: the number of activations of \<^verbatim>\<open>process()\<close> waiting in the backoff sleep;
  \<^item> \<open>listeners\<close>: for each pending promise returned by \<^verbatim>\<open>enqueue\<close>, the promise and the
    item id its two handlers (\<^verbatim>\<open>operation-complete\<close>, \<^verbatim>\<open>operation-failed\<close>) compare with;
  \<^item> \<open>settled\<close>: the promises resolved or rejected so far, in order;
  \<^item> \<open>next_promise\<close>: the number of promises created so far (promises are numbered).
\<close>

record ('op, 'r) SyncQueue =
  queue :: "'op QueueItem list"
  processing :: bool
  q_maxRetries :: nat
  inflight :: "'op QueueItem list"
  sleeping :: nat
  listeners :: "(nat \<times> string) list"
  settled :: "(nat \<times> 'r settlement) list"
  next_promise :: nat

definition new_SyncQueue :: "nat \<Rightarrow> ('op, 'r) SyncQueue" where
  "new_SyncQueue maxRetries' =
     \<lparr>queue = [], processing = False, q_maxRetries = maxRetries', inflight = [], sleeping = 0,
      listeners = [], settled = [], next_promise = 0\<rparr>"

text \<open>\<^verbatim>\<open>emit('operation-complete', {id, result})\<close> and \<^verbatim>\<open>emit('operation-failed', {id, error})\<close>:
  every handler registered for this id settles its promise and removes itself.\<close>

definition emit_settle ::
  "string \<Rightarrow> 'r settlement \<Rightarrow> ('op, 'r, 'z) SyncQueue_scheme \<Rightarrow> ('op, 'r, 'z) SyncQueue_scheme" where
  "emit_settle i out s =
     s\<lparr>settled := settled s @ map (\<lambda>(p, j). (p, out)) (filter (\<lambda>(p, j). j = i) (listeners s)),
       listeners := filter (\<lambda>(p, j). j \<noteq> i) (listeners s)\<rparr>"

text \<open>The head of the loop \<^verbatim>\<open>while (this.queue.length > 0)\<close> of \<^verbatim>\<open>process()\<close>: shift the next
  item and start its operation, or leave the loop and reset \<^verbatim>\<open>processing\<close>.\<close>

definition drain :: "('op, 'r, 'z) SyncQueue_scheme \<Rightarrow> ('op, 'r, 'z) SyncQueue_scheme" where
  "drain s =
     (case queue s of
        [] \<Rightarrow> s\<lparr>processing := False\<rparr>
      | item # rest \<Rightarrow> s\<lparr>queue := rest, inflight := inflight s @ [item]\<rparr>)"

definition process :: "('op, 'r, 'z) SyncQueue_scheme \<Rightarrow> ('op, 'r, 'z) SyncQueue_scheme" where
  "process s =
     (if processing s \<or> queue s = [] then s else drain (s\<lparr>processing := True\<rparr>))"

definition clear :: "('op, 'r, 'z) SyncQueue_scheme \<Rightarrow> ('op, 'r, 'z) SyncQueue_scheme" where
  "clear s = s\<lparr>queue := []\<rparr>"

text \<open>\<^verbatim>\<open>remove(id)\<close>: the first item with this id, if any, is spliced out.\<close>

fun remove_first :: "string \<Rightarrow> 'op QueueItem list \<Rightarrow> 'op QueueItem list" where
  "remove_first i [] = []"
| "remove_first i (x # xs) = (if item_id x = i then xs else x # remove_first i xs)"

definition remove :: "string \<Rightarrow> ('op, 'r, 'z) SyncQueue_scheme \<Rightarrow> bool \<times> ('op, 'r, 'z) SyncQueue_scheme" where
  "remove i s =
     (if i \<in> set (map item_id (queue s)) then (True, s\<lparr>queue := remove_first i (queue s)\<rparr>)
      else (False, s))"

text \<open>The insertion of \<^verbatim>\<open>enqueue\<close>: before the first item of strictly lower priority, at
  the end when there is none.\<close>

definition insert_by_priority :: "'op QueueItem \<Rightarrow> 'op QueueItem list \<Rightarrow> 'op QueueItem list" where
  "insert_by_priority item q =
     takeWhile (\<lambda>x. \<not> priority x < priority item) q @ [item] @
     dropWhile (\<lambda>x. \<not> priority x < priority item) q"

definition duplicate_error :: "string \<Rightarrow> js_error" where
  "duplicate_error i = PlainError (Some (''Operation with ID '' @ i @ '' already in queue''))"

text \<open>
  \<^verbatim>\<open>enqueue(operation, priority, id)\<close>. \<open>id_arg\<close> is the optional argument (an empty string
  is falsy, like a missing one), \<open>now\<close> is \<^verbatim>\<open>Date.now()\<close> and \<open>rnd\<close> the rendering of
  \<^verbatim>\<open>Math.random()\<close>. The result is the promise returned and the new state.
\<close>

definition enqueue ::
  "'op \<Rightarrow> int \<Rightarrow> string option \<Rightarrow> int \<Rightarrow> string \<Rightarrow> ('op, 'r, 'z) SyncQueue_scheme \<Rightarrow>
   nat \<times> ('op, 'r, 'z) SyncQueue_scheme" where
  "enqueue op pr id_arg now rnd s =
     (let explicit = (case id_arg of Some i \<Rightarrow> i \<noteq> [] | None \<Rightarrow> False);
          item = \<lparr>item_id = (if explicit then the id_arg
                              else ''op-'' @ show_int now @ ''-'' @ rnd),
                  item_operation = op, priority = pr, timestamp = now, retries = 0\<rparr>;
          p = next_promise s;
          s0 = s\<lparr>next_promise := Suc p\<rparr>
      in if explicit \<and> item_id item \<in> set (map item_id (queue s0))
         then (p, s0\<lparr>settled := settled s0 @ [(p, Rejected (duplicate_error (item_id item)))]\<rparr>)
         else
           let s1 = s0\<lparr>queue := insert_by_priority item (queue s0)\<rparr>;
               s2 = (if \<not> processing s1 then process s1 else s1)
           in (p, s2\<lparr>listeners := listeners s2 @ [(p, item_id item)]\<rparr>))"

text \<open>The test of the \<^verbatim>\<open>catch\<close> block of \<^verbatim>\<open>process()\<close> for a spawn fault.\<close>

definition isSpawnError :: "js_error \<Rightarrow> bool" where
  "isSpawnError error =
     (let errorMessage = (case message error of Some m \<Rightarrow> toLowerCase m | None \<Rightarrow> [])
      in str_includes errorMessage ''spawn eio'' \<or> str_includes errorMessage ''spawn EIO'')"

text \<open>
  The operation of the \<open>k\<close>-th in-flight item returns or throws, and the activation of
  \<^verbatim>\<open>process()\<close> that awaited it goes on to its next suspension point. Nothing happens when
  there is no such item.
\<close>

definition finish ::
  "nat \<Rightarrow> js_error + 'r \<Rightarrow> ('op, 'r, 'z) SyncQueue_scheme \<Rightarrow> ('op, 'r, 'z) SyncQueue_scheme" where
  "finish k outcome s =
     (if k < length (inflight s) then
        let item = inflight s ! k;
            s0 = s\<lparr>inflight := take k (inflight s) @ drop (Suc k) (inflight s)\<rparr>
        in case outcome of
             Inr result \<Rightarrow> drain (emit_settle (item_id item) (Resolved result) s0)
           | Inl error \<Rightarrow>
               if isSpawnError error
               then drain (clear (emit_settle (item_id item) (Rejected error) s0))
               else
                 let item' = item\<lparr>retries := retries item + 1\<rparr>
                 in if retries item' < q_maxRetries s0
                    then s0\<lparr>queue := item' # queue s0, sleeping := Suc (sleeping s0)\<rparr>
                    else drain (emit_settle (item_id item') (Rejected error) s0)
      else s)"

text \<open>A backoff sleep of \<^verbatim>\<open>process()\<close> ends.\<close>

definition wake :: "('op, 'r, 'z) SyncQueue_scheme \<Rightarrow> ('op, 'r, 'z) SyncQueue_scheme" where
  "wake s = (if sleeping s > 0 then drain (s\<lparr>sleeping := sleeping s - 1\<rparr>) else s)"

text \<open>The backoff sleep after the \<open>n\<close>-th failure of an item, in milliseconds.\<close>

definition queue_backoff :: "nat \<Rightarrow> nat" where
  "queue_backoff n = 2 ^ n * 1000"

text \<open>What can happen to a queue: a call of one of its methods, or a step of the event
  loop.\<close>

datatype ('op, 'r) queue_event =
    Enqueue 'op int "string option" int string
  | Finish nat "js_error + 'r"
  | Wake
  | Clear
  | Remove string

fun queue_step ::
  "('op, 'r) queue_event \<Rightarrow> ('op, 'r, 'z) SyncQueue_scheme \<Rightarrow> ('op, 'r, 'z) SyncQueue_scheme" where
  "queue_step (Enqueue op pr id_arg now rnd) s = snd (enqueue op pr id_arg now rnd s)"
| "queue_step (Finish k outcome) s = finish k outcome s"
| "queue_step Wake s = wake s"
| "queue_step Clear s = clear s"
| "queue_step (Remove i) s = snd (remove i s)"

definition queue_run ::
  "('op, 'r) queue_event list \<Rightarrow> ('op, 'r, 'z) SyncQueue_scheme \<Rightarrow> ('op, 'r, 'z) SyncQueue_scheme" where
  "queue_run evs s = foldl (\<lambda>s ev. queue_step ev s) s evs"

text \<open>Whether a promise is still pending, and what it was settled with.\<close>

definition outcome_of :: "nat \<Rightarrow> ('op, 'r, 'z) SyncQueue_scheme \<Rightarrow> 'r settlement option" where
  "outcome_of p s = map_of (settled s) p"

definition queued_ids :: "('op, 'r, 'z) SyncQueue_scheme \<Rightarrow> string list" where
  "queued_ids s = map item_id (queue s)"

text \<open>The drain loop is single: what the flag \<^verbatim>\<open>processing\<close> guards.\<close>

definition single_flight :: "('op, 'r, 'z) SyncQueue_scheme \<Rightarrow> bool" where
  "single_flight s = (length (inflight s) + sleeping s = (if processing s then 1 else 0))"

section \<open>DebouncedSyncQueue (sync-queue.ts)\<close>

text \<open>
  The subclass adds \<^verbatim>\<open>debounceMs\<close>, \<^verbatim>\<open>pendingOperation\<close> and \<^verbatim>\<open>debounceTimer\<close>. An armed timer
  is \<open>Some p\<close>, where \<open>p\<close> is the promise that the timer's callback would settle; a timer
  that was never set, was cleared or has fired is \<open>None\<close>. \<open>awaiting\<close> holds the callbacks
  suspended in \<^verbatim>\<open>await this.enqueue(...)\<close>: the promise of the inner \<^verbatim>\<open>enqueue\<close> and the
  promise returned by \<^verbatim>\<open>enqueueDebounced\<close>.
\<close>

record ('op, 'r) DebouncedSyncQueue = "('op, 'r) SyncQueue" +
  debounceMs :: nat
  pendingOperation :: "'op option"
  debounceTimer :: "nat option"
  awaiting :: "(nat \<times> nat) list"

definition new_DebouncedSyncQueue :: "nat \<Rightarrow> nat \<Rightarrow> ('op, 'r) DebouncedSyncQueue" where
  "new_DebouncedSyncQueue ms maxRetries' =
     \<lparr>queue = [], processing = False, q_maxRetries = maxRetries', inflight = [], sleeping = 0,
      listeners = [], settled = [], next_promise = 0,
      debounceMs = ms, pendingOperation = None, debounceTimer = None, awaiting = []\<rparr>"

definition enqueueDebounced ::
  "'op \<Rightarrow> ('op, 'r) DebouncedSyncQueue \<Rightarrow> nat \<times> ('op, 'r) DebouncedSyncQueue" where
  "enqueueDebounced op s =
     (let p = next_promise s
      in (p, s\<lparr>next_promise := Suc p, pendingOperation := Some op, debounceTimer := Some p\<rparr>))"

text \<open>The suspended callbacks whose inner promise has been settled run on: \<^verbatim>\<open>resolve(result)\<close>
  or \<^verbatim>\<open>reject(error)\<close>, then \<^verbatim>\<open>finally { this.pendingOperation = undefined }\<close>.\<close>

fun resume_each ::
  "(nat \<times> nat) list \<Rightarrow> ('op, 'r) DebouncedSyncQueue \<Rightarrow> ('op, 'r) DebouncedSyncQueue" where
  "resume_each [] s = s"
| "resume_each ((q, p) # ws) s =
     (case outcome_of q s of
        None \<Rightarrow> resume_each ws s
      | Some out \<Rightarrow>
          resume_each ws
            (s\<lparr>settled := settled s @ [(p, out)], pendingOperation := None,
               awaiting := removeAll (q, p) (awaiting s)\<rparr>))"

definition resume :: "('op, 'r) DebouncedSyncQueue \<Rightarrow> ('op, 'r) DebouncedSyncQueue" where
  "resume s = resume_each (awaiting s) s"

text \<open>The timer's callback. The reserved id is \<^verbatim>\<open>'debounced-sync'\<close>.\<close>

definition timer_fires ::
  "int \<Rightarrow> string \<Rightarrow> ('op, 'r) DebouncedSyncQueue \<Rightarrow> ('op, 'r) DebouncedSyncQueue" where
  "timer_fires now rnd s =
     (case debounceTimer s of
        None \<Rightarrow> s
      | Some p \<Rightarrow>
          let s0 = s\<lparr>debounceTimer := None\<rparr>
          in case pendingOperation s0 of
               None \<Rightarrow> s0
             | Some op \<Rightarrow>
                 let (q, s1) = enqueue op 0 (Some ''debounced-sync'') now rnd s0
                 in resume (s1\<lparr>awaiting := awaiting s1 @ [(q, p)]\<rparr>))"

datatype ('op, 'r) debounced_event =
    Base "('op, 'r) queue_event"
  | EnqueueDebounced 'op
  | TimerFires int string

fun debounced_step ::
  "('op, 'r) debounced_event \<Rightarrow> ('op, 'r) DebouncedSyncQueue \<Rightarrow> ('op, 'r) DebouncedSyncQueue" where
  "debounced_step (Base ev) s = resume (queue_step ev s)"
| "debounced_step (EnqueueDebounced op) s = snd (enqueueDebounced op s)"
| "debounced_step (TimerFires now rnd) s = timer_fires now rnd s"

definition debounced_run ::
  "('op, 'r) debounced_event list \<Rightarrow> ('op, 'r) DebouncedSyncQueue \<Rightarrow> ('op, 'r) DebouncedSyncQueue" where
  "debounced_run evs s = foldl (\<lambda>s ev. debounced_step ev s) s evs"

fun is_timer_fire :: "('op, 'r) debounced_event \<Rightarrow> bool" where
  "is_timer_fire (TimerFires now rnd) = True"
| "is_timer_fire ev = False"

section \<open>GitSyncManager: the two queues and performSync (git-sync-manager.ts)\<close>

datatype SyncDirection = Pull | Push | Sync









subsection \<open>Promises and the events that settle them\<close>

text \<open>The id for which a step emits \<^verbatim>\<open>operation-complete\<close> or \<^verbatim>\<open>operation-failed\<close>, if it
  emits one: the end of an operation in flight, unless the operation is re-queued for a
  retry.\<close>

fun emits :: "('op, 'r) queue_event \<Rightarrow> ('op, 'r, 'z) SyncQueue_scheme \<Rightarrow> string option" where
  "emits (Finish k outcome) s =
     (if k < length (inflight s) then
        (case outcome of
           Inr result \<Rightarrow> Some (item_id (inflight s ! k))
         | Inl error \<Rightarrow>
             if isSpawnError error \<or> \<not> Suc (retries (inflight s ! k)) < q_maxRetries s
             then Some (item_id (inflight s ! k)) else None)
      else None)"
| "emits ev s = None"


text \<open>The promise \<open>p\<close> is pending and its handlers listen for the id \<open>i\<close>.\<close>

definition waits_for :: "nat \<Rightarrow> string \<Rightarrow> ('op, 'r, 'z) SyncQueue_scheme \<Rightarrow> bool" where
  "waits_for p i s =
     (p < next_promise s \<and> outcome_of p s = None \<and>
      i \<in> set (map snd (filter (\<lambda>(p', j). p' = p) (listeners s))) \<and>
      set (map snd (filter (\<lambda>(p', j). p' = p) (listeners s))) \<subseteq> {i})"

subsection \<open>Promises of the debounced queue\<close>

text \<open>Nothing in the state can settle the promise \<open>p\<close> any more, the timer apart: it is
  pending, no suspended callback would settle it and no handler is registered for it.\<close>

definition unreachable_promise :: "nat \<Rightarrow> ('op, 'r) DebouncedSyncQueue \<Rightarrow> bool" where
  "unreachable_promise p s =
     (p < next_promise s \<and> outcome_of p s = None \<and>
      p \<notin> set (map snd (awaiting s)) \<and> p \<notin> set (map fst (listeners s)))"

text \<open>The same, and the armed timer, if any, belongs to another promise.\<close>

definition abandoned :: "nat \<Rightarrow> ('op, 'r) DebouncedSyncQueue \<Rightarrow> bool" where
  "abandoned p s = (unreachable_promise p s \<and> debounceTimer s \<noteq> Some p)"

text \<open>Every promise that the state mentions has been created.\<close>

definition promises_created :: "('op, 'r) DebouncedSyncQueue \<Rightarrow> bool" where
  "promises_created s =
     (list_all (\<lambda>p. p < next_promise s)
        (map fst (settled s) @ map fst (listeners s) @ map snd (awaiting s)) \<and>
      (case debounceTimer s of Some p \<Rightarrow> p < next_promise s | None \<Rightarrow> True))"

text \<open>What the handlers of \<^verbatim>\<open>enqueue\<close> pass on: \<^verbatim>\<open>resolve(result.result)\<close> or
  \<^verbatim>\<open>reject(result.error)\<close>.\<close>

fun settlement_of :: "js_error + 'r \<Rightarrow> 'r settlement" where
  "settlement_of (Inr result) = Resolved result"
| "settlement_of (Inl error) = Rejected error"

section \<open>Git operations of the sync manager (git-sync-manager.ts)\<close>

subsection \<open>Sequencing of fallible steps\<close>

text \<open>A step of an \<^verbatim>\<open>async\<close> function: it reads and changes the state of the world and
  returns a value or throws. \<open>and_then\<close> is \<^verbatim>\<open>await\<close> followed by the rest, \<open>catch\<close> is
  \<^verbatim>\<open>try { ... } catch (error) { ... }\<close>.\<close>

definition ret :: "'a \<Rightarrow> 's \<Rightarrow> (js_error + 'a) \<times> 's" where
  "ret v s = (Inr v, s)"

definition throw :: "js_error \<Rightarrow> 's \<Rightarrow> (js_error + 'a) \<times> 's" where
  "throw e s = (Inl e, s)"

definition and_then ::
  "('s \<Rightarrow> (js_error + 'a) \<times> 's) \<Rightarrow> ('a \<Rightarrow> 's \<Rightarrow> (js_error + 'b) \<times> 's) \<Rightarrow>
   's \<Rightarrow> (js_error + 'b) \<times> 's" where
  "and_then m f s = (case m s of (Inl e, s') \<Rightarrow> (Inl e, s') | (Inr v, s') \<Rightarrow> f v s')"

definition catch ::
  "('s \<Rightarrow> (js_error + 'a) \<times> 's) \<Rightarrow> (js_error \<Rightarrow> 's \<Rightarrow> (js_error + 'a) \<times> 's) \<Rightarrow>
   's \<Rightarrow> (js_error + 'a) \<times> 's" where
  "catch m h s = (case m s of (Inl e, s') \<Rightarrow> h e s' | (Inr v, s') \<Rightarrow> (Inr v, s'))"

subsection \<open>The calls made on Git, the file system and the collaborators\<close>

datatype git_call =
    Status
  | StashPush string
  | StashPop
  | RawPull "string list"
  | Fetch string string
  | RevParse string
  | AddAll
  | Commit string
  | Push string string
  | PushSetUpstream string string
  | ResetHead string
  | LsFiles
  | ValidateFiles "string list"
  | ExistsSync string
  | ReadFileSync string
  | HasPlaceholders

text \<open>
  The world outside the process answers every call, and its answer may depend on all the
  calls made before (the history). \<open>on_status\<close> gives the paths of \<^verbatim>\<open>status.files\<close>;
  \<open>on_command\<close> answers the calls whose value is not read (\<open>None\<close>: the call succeeded);
  \<open>on_validate\<close> gives the \<^verbatim>\<open>errors\<close> of the validator, as pairs of a file and a message;
  \<open>on_exists\<close> and \<open>on_read\<close> answer for the file \<^verbatim>\<open>path.join(contentDir, file)\<close>;
  \<open>on_has_placeholders\<close> is \<^verbatim>\<open>PlaceholderStateManager.getInstance().hasPlaceholders()\<close>.
  The state threaded through an operation is the list of the calls made so far.
\<close>

record git_env =
  on_status :: "git_call list \<Rightarrow> js_error + string list"
  on_command :: "git_call list \<Rightarrow> git_call \<Rightarrow> js_error option"
  on_revparse :: "git_call list \<Rightarrow> string \<Rightarrow> js_error + string"
  on_ls_files :: "git_call list \<Rightarrow> js_error + string"
  on_validate :: "git_call list \<Rightarrow> string list \<Rightarrow> js_error + (string \<times> string) list"
  on_exists :: "git_call list \<Rightarrow> string \<Rightarrow> bool"
  on_read :: "git_call list \<Rightarrow> string \<Rightarrow> js_error + string"
  on_has_placeholders :: "git_call list \<Rightarrow> bool"

definition git_status :: "git_env \<Rightarrow> git_call list \<Rightarrow> (js_error + string list) \<times> git_call list" where
  "git_status E tr = (on_status E tr, tr @ [Status])"

definition git_command :: "git_env \<Rightarrow> git_call \<Rightarrow> git_call list \<Rightarrow> (js_error + unit) \<times> git_call list" where
  "git_command E c tr =
     ((case on_command E tr c of None \<Rightarrow> Inr () | Some e \<Rightarrow> Inl e), tr @ [c])"

definition git_revparse :: "git_env \<Rightarrow> string \<Rightarrow> git_call list \<Rightarrow> (js_error + string) \<times> git_call list" where
  "git_revparse E r tr = (on_revparse E tr r, tr @ [RevParse r])"

definition git_ls_files :: "git_env \<Rightarrow> git_call list \<Rightarrow> (js_error + string) \<times> git_call list" where
  "git_ls_files E tr = (on_ls_files E tr, tr @ [LsFiles])"

definition validateFiles ::
  "git_env \<Rightarrow> string list \<Rightarrow> git_call list \<Rightarrow> (js_error + (string \<times> string) list) \<times> git_call list" where
  "validateFiles E files tr = (on_validate E tr files, tr @ [ValidateFiles files])"

definition existsSync :: "git_env \<Rightarrow> string \<Rightarrow> git_call list \<Rightarrow> (js_error + bool) \<times> git_call list" where
  "existsSync E file tr = (Inr (on_exists E tr file), tr @ [ExistsSync file])"

definition readFileSync :: "git_env \<Rightarrow> string \<Rightarrow> git_call list \<Rightarrow> (js_error + string) \<times> git_call list" where
  "readFileSync E file tr = (on_read E tr file, tr @ [ReadFileSync file])"

definition hasPlaceholders :: "git_env \<Rightarrow> git_call list \<Rightarrow> (js_error + bool) \<times> git_call list" where
  "hasPlaceholders E tr = (Inr (on_has_placeholders E tr), tr @ [HasPlaceholders])"

subsection \<open>Options\<close>

datatype ConflictResolution = Ours | Theirs | Manual

fun resolution_name :: "ConflictResolution \<Rightarrow> string" where
  "resolution_name Ours = ''ours''"
| "resolution_name Theirs = ''theirs''"
| "resolution_name Manual = ''manual''"

text \<open>The options the Git operations read. The validator object exists exactly when
  \<^verbatim>\<open>validateBeforeCommit\<close> is set.\<close>

record sync_options =
  branch :: string
  conflictResolution :: ConflictResolution
  validateBeforeCommit :: bool
  skipInvalidFiles :: bool
  commitMessage :: string

subsection \<open>Placeholder detection\<close>

definition PLACEHOLDER_MARKER :: string where
  "PLACEHOLDER_MARKER = ''DOCUSAURUS_PLACEHOLDER_DO_NOT_COMMIT''"

definition isMarkdown :: "string \<Rightarrow> bool" where
  "isMarkdown file = (endsWith file ''.md'' \<or> endsWith file ''.mdx'')"

text \<open>The loop over the Markdown files of both detectors: the first existing file that
  contains the marker ends it.\<close>

fun scan_files :: "git_env \<Rightarrow> string list \<Rightarrow> git_call list \<Rightarrow> (js_error + bool) \<times> git_call list" where
  "scan_files E [] = ret False"
| "scan_files E (file # files) =
     and_then (existsSync E file) (\<lambda>ex.
       if ex then
         and_then (readFileSync E file) (\<lambda>content.
           if str_includes content PLACEHOLDER_MARKER then ret True else scan_files E files)
       else scan_files E files)"

definition hasPlaceholderFiles ::
  "git_env \<Rightarrow> string list \<Rightarrow> git_call list \<Rightarrow> (js_error + bool) \<times> git_call list" where
  "hasPlaceholderFiles E files = scan_files E (filter isMarkdown files)"

text \<open>\<^verbatim>\<open>String.prototype.split\<close> on one separator character, and the order-keeping
  removal of duplicates of \<^verbatim>\<open>[...new Set(xs)]\<close>.\<close>

fun split_on :: "char \<Rightarrow> string \<Rightarrow> string list" where
  "split_on c [] = [[]]"
| "split_on c (x # xs) =
     (if x = c then [] # split_on c xs
      else (case split_on c xs of
              w # ws \<Rightarrow> (x # w) # ws
            | [] \<Rightarrow> [[x]]))"

definition unique :: "'a list \<Rightarrow> 'a list" where
  "unique xs = rev (remdups (rev xs))"

definition hasAnyPlaceholderFiles ::
  "git_env \<Rightarrow> git_call list \<Rightarrow> (js_error + bool) \<times> git_call list" where
  "hasAnyPlaceholderFiles E =
     catch
       (and_then (git_status E) (\<lambda>allFiles.
        and_then (git_ls_files E) (\<lambda>trackedFiles.
          let trackedFilesList = filter (\<lambda>f. f \<noteq> []) (split_on (CHR 0x0A) trackedFiles);
              filesToCheck = unique (allFiles @ trackedFilesList)
          in scan_files E (filter isMarkdown filesToCheck))))
       (\<lambda>error. ret False)"

subsection \<open>pull\<close>

definition pull_options :: "ConflictResolution \<Rightarrow> string list" where
  "pull_options r =
     (if r = Theirs then [''--rebase=false'', ''--strategy=recursive'', ''--strategy-option=theirs'']
      else if r = Ours then [''--rebase=true'', ''--strategy-option=ours'']
      else [''--rebase=true''])"

text \<open>The handler of a failed \<^verbatim>\<open>stash pop\<close> after a pull, shared by \<^verbatim>\<open>pull\<close> and
  \<^verbatim>\<open>syncBidirectional\<close>.\<close>

definition pop_failed :: "js_error \<Rightarrow> git_call list \<Rightarrow> (js_error + unit) \<times> git_call list" where
  "pop_failed error =
     (if messageIncludes error ''No stash entries found'' then ret ()
      else if messageIncludes error ''conflict''
      then throw (GitOperationError GIT_MERGE_CONFLICT
                    ''Conflict when applying local changes after pull'' False)
      else throw error)"

text \<open>The operation that \<^verbatim>\<open>pull\<close> hands to \<^verbatim>\<open>executeWithRetry\<close>: one attempt.\<close>

definition pull_operation ::
  "sync_options \<Rightarrow> git_env \<Rightarrow> git_call list \<Rightarrow> (js_error + unit) \<times> git_call list" where
  "pull_operation opts E =
     and_then (git_status E) (\<lambda>files.
       let hasLocalChanges = (files \<noteq> []) in
       and_then (if hasLocalChanges
                 then git_command E (StashPush ''Git sync: temporary stash for pull'')
                 else ret ()) (\<lambda>_.
         let stashed = hasLocalChanges in
         catch
           (and_then
              (git_command E (RawPull ([''pull'', ''origin'', branch opts]
                                        @ pull_options (conflictResolution opts)))) (\<lambda>_.
              if stashed then catch (git_command E StashPop) pop_failed else ret ()))
           (\<lambda>error.
              and_then (if stashed then catch (git_command E StashPop) (\<lambda>stashError. ret ())
                        else ret ()) (\<lambda>_.
                if messageIncludes error ''merge conflict''
                then throw (GitOperationError GIT_MERGE_CONFLICT
                              ''Merge conflict during pull operation'' False)
                else throw error))))"

text \<open>The retry manager of the sync manager: \<^verbatim>\<open>maxRetries: 3, initialDelay: 1000,
  maxDelay: 10000\<close> and an \<^verbatim>\<open>onRetry\<close> callback.\<close>

definition manager_retry_options :: RetryOptions where
  "manager_retry_options =
     RetryManager (no_overrides\<lparr>p_maxRetries := Some 3, p_initialDelay := Some 1000,
                                p_maxDelay := Some 10000, p_onRetry := Some True\<rparr>)"

definition pull ::
  "sync_options \<Rightarrow> git_env \<Rightarrow> git_call list \<Rightarrow>
   (js_error + unit) \<times> git_call list \<times> retry_event list" where
  "pull opts E = executeWithRetry manager_retry_options (pull_operation opts E)
                   ''Git pull operation'' no_overrides"

subsection \<open>The commit step shared by the branches of syncBidirectional\<close>

text \<open>"Check for placeholder files before committing": the result says whether a commit
  was made (\<^verbatim>\<open>shouldPush = true\<close>).\<close>

definition commit_unless_placeholder ::
  "sync_options \<Rightarrow> git_env \<Rightarrow> string list \<Rightarrow> git_call list \<Rightarrow> (js_error + bool) \<times> git_call list" where
  "commit_unless_placeholder opts E files =
     and_then (hasPlaceholderFiles E files) (\<lambda>found.
       if found then ret False
       else and_then (git_command E AddAll) (\<lambda>_.
            and_then (git_command E (Commit (commitMessage opts))) (\<lambda>_. ret True)))"

text \<open>\<^verbatim>\<open>for (const error of validation.errors) await this.git.reset(['HEAD', error.file])\<close>.\<close>

fun reset_each :: "git_env \<Rightarrow> (string \<times> string) list \<Rightarrow> git_call list \<Rightarrow> (js_error + unit) \<times> git_call list" where
  "reset_each E [] = ret ()"
| "reset_each E ((file, msg) # errors) =
     and_then (git_command E (ResetHead file)) (\<lambda>_. reset_each E errors)"

text \<open>\<^verbatim>\<open>validation.errors.map(e => `${e.file}: ${e.error}`).join('\n')\<close>.\<close>

fun errorMessages :: "(string \<times> string) list \<Rightarrow> string" where
  "errorMessages [] = []"
| "errorMessages [(file, msg)] = file @ '': '' @ msg"
| "errorMessages ((file, msg) # e # es) = file @ '': '' @ msg @ [CHR 0x0A] @ errorMessages (e # es)"

definition validation_failed_message :: "(string \<times> string) list \<Rightarrow> string" where
  "validation_failed_message errors = ''MDX validation failed:'' @ [CHR 0x0A] @ errorMessages errors"

text \<open>Step 6 of \<^verbatim>\<open>syncBidirectional\<close>, for a non-empty list of changed files after the pull.\<close>

definition commit_step ::
  "sync_options \<Rightarrow> git_env \<Rightarrow> string list \<Rightarrow> git_call list \<Rightarrow> (js_error + bool) \<times> git_call list" where
  "commit_step opts E filesAfterPull =
     (if validateBeforeCommit opts then
        let filesToValidate = filter isMarkdown filesAfterPull in
        if filesToValidate \<noteq> [] then
          and_then (validateFiles E filesToValidate) (\<lambda>errors.
            if errors \<noteq> [] then
              if skipInvalidFiles opts then
                and_then (reset_each E errors) (\<lambda>_.
                and_then (git_status E) (\<lambda>newFiles.
                  if newFiles = [] then ret False
                  else commit_unless_placeholder opts E newFiles))
              else throw (PlainError (Some (validation_failed_message errors)))
            else commit_unless_placeholder opts E filesAfterPull)
        else commit_unless_placeholder opts E filesAfterPull
      else commit_unless_placeholder opts E filesAfterPull)"

subsection \<open>syncBidirectional\<close>

definition sync_pull_args :: "sync_options \<Rightarrow> string list" where
  "sync_pull_args opts =
     [''pull'', ''origin'', branch opts] @
     (if conflictResolution opts \<noteq> Manual
      then [''--rebase=false'', ''--strategy=recursive'',
            ''--strategy-option='' @ resolution_name (conflictResolution opts)]
      else [''--rebase=false''])"

text \<open>The outer \<^verbatim>\<open>try { ... } catch (error) { console.error(...); throw error }\<close> changes
  nothing. The two results of step 1 are computed, logged and not read again.\<close>

definition syncBidirectional ::
  "sync_options \<Rightarrow> git_env \<Rightarrow> git_call list \<Rightarrow> (js_error + unit) \<times> git_call list" where
  "syncBidirectional opts E =
     and_then (hasPlaceholders E) (\<lambda>hasPlaceholderState.
     and_then (hasAnyPlaceholderFiles E) (\<lambda>hasPlaceholderFiles'.
     and_then (git_command E (Fetch ''origin'' (branch opts))) (\<lambda>_.
     and_then (git_status E) (\<lambda>files.
       let hasLocalChanges = (files \<noteq> []) in
       and_then (if hasLocalChanges then git_command E (StashPush ''Git sync: temporary stash'')
                 else ret ()) (\<lambda>_.
         let stashed = hasLocalChanges in
         and_then
           (catch
              (and_then (git_revparse E ''HEAD'') (\<lambda>localRef.
               and_then (git_revparse E (''origin/'' @ branch opts)) (\<lambda>remoteRef.
                 if localRef \<noteq> remoteRef then git_command E (RawPull (sync_pull_args opts))
                 else ret ())))
              (\<lambda>error. ret ())) (\<lambda>_.
         and_then (if stashed then catch (git_command E StashPop) pop_failed else ret ()) (\<lambda>_.
         and_then (git_status E) (\<lambda>filesAfterPull.
         and_then (if filesAfterPull \<noteq> [] then commit_step opts E filesAfterPull
                   else ret False) (\<lambda>shouldPush.
           if shouldPush then git_command E (PushSetUpstream ''origin'' (branch opts))
           else ret ())))))))))"

subsection \<open>push\<close>

text \<open>The part of the operation of \<^verbatim>\<open>push\<close> for a non-empty status; the result says whether
  the operation goes on to the push (\<open>False\<close>: it has returned).\<close>

definition push_commit ::
  "sync_options \<Rightarrow> git_env \<Rightarrow> string list \<Rightarrow> git_call list \<Rightarrow> (js_error + bool) \<times> git_call list" where
  "push_commit opts E files =
     and_then
       (if validateBeforeCommit opts then
          let filesToValidate = filter isMarkdown files in
          if filesToValidate \<noteq> [] then
            and_then (validateFiles E filesToValidate) (\<lambda>errors.
              if errors \<noteq> [] then
                if skipInvalidFiles opts then
                  and_then (reset_each E errors) (\<lambda>_.
                  and_then (git_status E) (\<lambda>newFiles. ret (newFiles \<noteq> [])))
                else throw (GitOperationError GIT_COMMIT_FAILED
                              (validation_failed_message errors) False)
              else ret True)
          else ret True
        else ret True) (\<lambda>go.
       if \<not> go then ret False
       else
         catch
           (and_then (hasPlaceholderFiles E files) (\<lambda>found.
              if found then ret False
              else and_then (git_command E AddAll) (\<lambda>_.
                   and_then (git_command E (Commit (commitMessage opts))) (\<lambda>_. ret True))))
           (\<lambda>error. throw (GitOperationError GIT_COMMIT_FAILED ''Failed to commit changes'' False)))"

definition push_operation ::
  "sync_options \<Rightarrow> git_env \<Rightarrow> git_call list \<Rightarrow> (js_error + unit) \<times> git_call list" where
  "push_operation opts E =
     and_then (git_status E) (\<lambda>files.
     and_then (if files \<noteq> [] then push_commit opts E files else ret True) (\<lambda>go.
       if \<not> go then ret ()
       else
         catch (git_command E (Push ''origin'' (branch opts)))
           (\<lambda>error.
              if messageIncludes error ''non-fast-forward''
              then throw (GitOperationError GIT_PUSH_FAILED
                     ''Push rejected: remote contains work that you do not have locally'' True)
              else throw error)))"

definition push ::
  "sync_options \<Rightarrow> git_env \<Rightarrow> git_call list \<Rightarrow>
   (js_error + unit) \<times> git_call list \<times> retry_event list" where
  "push opts E = executeWithRetry manager_retry_options (push_operation opts E)
                   ''Git push operation'' no_overrides"

subsection \<open>Example worlds\<close>

text \<open>A world in which every call succeeds, the working tree always has the one changed file
  \<^verbatim>\<open>notes.txt\<close>, the tracked files are \<^verbatim>\<open>intro.md\<close> and \<^verbatim>\<open>notes.txt\<close>, local and remote
  refs agree, and the tracked, unchanged \<^verbatim>\<open>intro.md\<close> contains the placeholder marker.\<close>

definition tracked_placeholder_world :: git_env where
  "tracked_placeholder_world =
     \<lparr>on_status = (\<lambda>h. Inr [''notes.txt'']),
      on_command = (\<lambda>h c. None),
      on_revparse = (\<lambda>h r. Inr ''4f2a9c1''),
      on_ls_files = (\<lambda>h. Inr (''intro.md'' @ [CHR 0x0A] @ ''notes.txt'' @ [CHR 0x0A])),
      on_validate = (\<lambda>h files. Inr []),
      on_exists = (\<lambda>h file. True),
      on_read = (\<lambda>h file. if file = ''intro.md''
                             then Inr (''<!-- '' @ PLACEHOLDER_MARKER @ '' -->'')
                             else Inr ''remember the milk''),
      on_has_placeholders = (\<lambda>h. False)\<rparr>"

text \<open>A world in which the working tree always has the changed file \<^verbatim>\<open>guide.md\<close>, the stash
  push succeeds, every pull fails because the host does not resolve, and every stash pop
  reports a conflict.\<close>

definition offline_conflict_world :: git_env where
  "offline_conflict_world =
     \<lparr>on_status = (\<lambda>h. Inr [''guide.md'']),
      on_command = (\<lambda>h c. case c of
          RawPull args \<Rightarrow> Some (PlainError (Some ''fatal: Could not resolve host: github.com''))
        | StashPop \<Rightarrow> Some (PlainError (Some ''error: conflict in guide.md''))
        | _ \<Rightarrow> None),
      on_revparse = (\<lambda>h r. Inr ''4f2a9c1''),
      on_ls_files = (\<lambda>h. Inr []),
      on_validate = (\<lambda>h files. Inr []),
      on_exists = (\<lambda>h file. True),
      on_read = (\<lambda>h file. Inr []),
      on_has_placeholders = (\<lambda>h. False)\<rparr>"

definition example_options :: sync_options where
  "example_options =
     \<lparr>branch = ''main'', conflictResolution = Ours, validateBeforeCommit = False,
      skipInvalidFiles = True, commitMessage = ''docs: sync content''\<rparr>"

section \<open>WebhookQueue (webhook-queue.ts)\<close>

datatype webhook_status = Pending | Processing | Completed | Failed

record 'p QueuedWebhook =
  wh_id :: string
  wh_payload :: 'p
  wh_timestamp :: int
  wh_retries :: nat
  wh_status :: webhook_status
  wh_error :: "string option"

text \<open>The queue object; \<open>wq_timer\<close> says whether the interval timer is set, and \<open>wq_handed\<close>
  lists the payloads handed to the processor so far.\<close>

record 'p WebhookQueue =
  wq_queue :: "'p QueuedWebhook list"
  wq_processing :: bool
  maxQueueSize :: nat
  wq_maxRetries :: nat
  processInterval :: nat
  wq_timer :: bool
  wq_handed :: "'p list"

text \<open>The constructor: \<^verbatim>\<open>options.maxQueueSize || 100\<close> and its like (zero is falsy).\<close>

definition or_default :: "nat option \<Rightarrow> nat \<Rightarrow> nat" where
  "or_default v d = (case v of None \<Rightarrow> d | Some n \<Rightarrow> if n = 0 then d else n)"

definition new_WebhookQueue :: "nat option \<Rightarrow> nat option \<Rightarrow> nat option \<Rightarrow> 'p WebhookQueue" where
  "new_WebhookQueue size' retries' interval =
     \<lparr>wq_queue = [], wq_processing = False, maxQueueSize = or_default size' 100,
      wq_maxRetries = or_default retries' 3, processInterval = or_default interval 1000,
      wq_timer = False, wq_handed = []\<rparr>"

definition wq_stop :: "'p WebhookQueue \<Rightarrow> 'p WebhookQueue" where
  "wq_stop s = s\<lparr>wq_timer := False, wq_processing := False\<rparr>"

fun mark_first_pending :: "'p QueuedWebhook list \<Rightarrow> 'p QueuedWebhook list" where
  "mark_first_pending [] = []"
| "mark_first_pending (w # ws) =
     (if wh_status w = Pending then w\<lparr>wh_status := Processing\<rparr> # ws
      else w # mark_first_pending ws)"

text \<open>\<^verbatim>\<open>processNext\<close> up to its \<^verbatim>\<open>await\<close>: the oldest pending webhook is marked and handed to
  the processor; with nothing pending and nothing in process, the loop stops.\<close>

definition processNext :: "'p WebhookQueue \<Rightarrow> 'p WebhookQueue" where
  "processNext s =
     (case find (\<lambda>w. wh_status w = Pending) (wq_queue s) of
        None \<Rightarrow> if list_ex (\<lambda>w. wh_status w = Processing) (wq_queue s) then s else wq_stop s
      | Some webhook \<Rightarrow>
          s\<lparr>wq_queue := mark_first_pending (wq_queue s),
            wq_handed := wq_handed s @ [wh_payload webhook]\<rparr>)"

definition startProcessing :: "'p WebhookQueue \<Rightarrow> 'p WebhookQueue" where
  "startProcessing s =
     (if wq_processing s then s else processNext (s\<lparr>wq_processing := True, wq_timer := True\<rparr>))"

text \<open>\<open>rnd\<close> is the rendering \<^verbatim>\<open>Math.random().toString(36).substr(2, 9)\<close>.\<close>

definition generateId :: "int \<Rightarrow> string \<Rightarrow> string" where
  "generateId now rnd = ''wh_'' @ show_int now @ ''_'' @ rnd"

definition wq_enqueue :: "'p \<Rightarrow> int \<Rightarrow> string \<Rightarrow> 'p WebhookQueue \<Rightarrow> string option \<times> 'p WebhookQueue" where
  "wq_enqueue payload' now rnd s =
     (if length (wq_queue s) \<ge> maxQueueSize s then (None, s)
      else
        let webhook = \<lparr>wh_id = generateId now rnd, wh_payload = payload', wh_timestamp = now,
                       wh_retries = 0, wh_status = Pending, wh_error = None\<rparr>
        in (Some (wh_id webhook), startProcessing (s\<lparr>wq_queue := wq_queue s @ [webhook]\<rparr>)))"

section \<open>WebhookServer (webhook-server-improved.ts)\<close>

subsection \<open>JSON values and the reads the handler makes\<close>

text \<open>A parsed JSON value; an object lists its members in the order of the text, and a
  later member with the same key wins. A JavaScript value read off it is a \<open>json option\<close>,
  \<open>None\<close> being \<^verbatim>\<open>undefined\<close>.\<close>

datatype json = JNull | JBool bool | JNum int | JStr string | JArr "json list"
  | JObj "(string \<times> json) list"

definition TypeError :: js_error where
  "TypeError = PlainError (Some ''TypeError'')"

fun truthy :: "json option \<Rightarrow> bool" where
  "truthy None = False"
| "truthy (Some JNull) = False"
| "truthy (Some (JBool b)) = b"
| "truthy (Some (JNum n)) = (n \<noteq> 0)"
| "truthy (Some (JStr s)) = (s \<noteq> [])"
| "truthy (Some (JArr xs)) = True"
| "truthy (Some (JObj kvs)) = True"

definition nullish :: "json option \<Rightarrow> bool" where
  "nullish v = (v = None \<or> v = Some JNull)"

text \<open>\<^verbatim>\<open>v.k\<close> for the keys the handler reads: a type error on \<^verbatim>\<open>null\<close>, the member of an
  object, \<^verbatim>\<open>undefined\<close> on every other value. (Of the keys read, only \<^verbatim>\<open>push\<close> is defined on
  a value that is not an object, on arrays, as a function without the properties read
  next: the optional chain gives \<^verbatim>\<open>undefined\<close> all the same.)\<close>

fun get :: "json \<Rightarrow> string \<Rightarrow> js_error + json option" where
  "get JNull k = Inl TypeError"
| "get (JObj kvs) k = Inr (map_of (rev kvs) k)"
| "get v k = Inr None"

text \<open>\<^verbatim>\<open>v?.k\<close> and \<^verbatim>\<open>v?.[0]\<close>.\<close>

fun opt_get :: "json option \<Rightarrow> string \<Rightarrow> json option" where
  "opt_get (Some (JObj kvs)) k = map_of (rev kvs) k"
| "opt_get v k = None"

fun opt_first :: "json option \<Rightarrow> json option" where
  "opt_first (Some (JArr (x # xs))) = Some x"
| "opt_first (Some (JStr (c # cs))) = Some (JStr [c])"
| "opt_first (Some (JObj kvs)) = map_of (rev kvs) ''0''"
| "opt_first v = None"

text \<open>\<^verbatim>\<open>s.replace(pattern, replacement)\<close> for a string pattern: the first occurrence.\<close>

fun replace_first :: "string \<Rightarrow> string \<Rightarrow> string \<Rightarrow> string" where
  "replace_first pat rep [] = (if pat = [] then rep else [])"
| "replace_first pat rep (c # cs) =
     (if startsWith (c # cs) pat then rep @ drop (length pat) (c # cs)
      else c # replace_first pat rep cs)"

text \<open>\<^verbatim>\<open>[...(v || [])]\<close>: a falsy value spreads as nothing, an array as its elements, a
  string as its characters; any other value is not iterable.\<close>

definition spread_or_empty :: "json option \<Rightarrow> js_error + json list" where
  "spread_or_empty v =
     (if \<not> truthy v then Inr []
      else case v of
             Some (JArr xs) \<Rightarrow> Inr xs
           | Some (JStr s) \<Rightarrow> Inr (map (\<lambda>c. JStr [c]) s)
           | _ \<Rightarrow> Inl TypeError)"

text \<open>The callback of \<^verbatim>\<open>payload.commits?.map\<close> for GitHub, reduced to the list \<^verbatim>\<open>files\<close> (the
  fields \<^verbatim>\<open>id\<close>, \<^verbatim>\<open>message\<close> and \<^verbatim>\<open>author\<close> are read without a type error once \<^verbatim>\<open>c.id\<close>
  has been, and are only logged).\<close>

definition github_commit_files :: "json \<Rightarrow> js_error + json list" where
  "github_commit_files c =
     (case get c ''id'' of
        Inl e \<Rightarrow> Inl e
      | Inr _ \<Rightarrow>
          (case spread_or_empty (opt_get (Some c) ''added'') of
             Inl e \<Rightarrow> Inl e
           | Inr a \<Rightarrow>
               (case spread_or_empty (opt_get (Some c) ''modified'') of
                  Inl e \<Rightarrow> Inl e
                | Inr m \<Rightarrow>
                    (case spread_or_empty (opt_get (Some c) ''removed'') of
                       Inl e \<Rightarrow> Inl e
                     | Inr r \<Rightarrow> Inr (a @ m @ r)))))"

definition bitbucket_commit_files :: "json \<Rightarrow> js_error + json list" where
  "bitbucket_commit_files c = (case get c ''hash'' of Inl e \<Rightarrow> Inl e | Inr _ \<Rightarrow> Inr [])"

text \<open>\<^verbatim>\<open>Array.prototype.map\<close> with a callback that may throw.\<close>

fun map_throwing :: "('a \<Rightarrow> js_error + 'b) \<Rightarrow> 'a list \<Rightarrow> js_error + 'b list" where
  "map_throwing f [] = Inr []"
| "map_throwing f (x # xs) =
     (case f x of
        Inl e \<Rightarrow> Inl e
      | Inr y \<Rightarrow> (case map_throwing f xs of Inl e \<Rightarrow> Inl e | Inr ys \<Rightarrow> Inr (y # ys)))"

text \<open>\<^verbatim>\<open>v?.map(callback)\<close>: \<^verbatim>\<open>undefined\<close> for a nullish value, a type error for a value that
  is not an array.\<close>

definition opt_map :: "(json \<Rightarrow> js_error + json list) \<Rightarrow> json option \<Rightarrow> js_error + json list list option" where
  "opt_map f v =
     (if nullish v then Inr None
      else case v of
             Some (JArr cs) \<Rightarrow> (case map_throwing f cs of Inl e \<Rightarrow> Inl e | Inr fs \<Rightarrow> Inr (Some fs))
           | _ \<Rightarrow> Inl TypeError)"

subsection \<open>The normalized payload\<close>

datatype provider = Github | Bitbucket | Unknown

fun provider_name :: "provider \<Rightarrow> string" where
  "provider_name Github = ''github''"
| "provider_name Bitbucket = ''bitbucket''"
| "provider_name Unknown = ''unknown''"

text \<open>Of a \<^verbatim>\<open>WebhookPayload\<close>, what the handler reads: the provider, the event, the branch
  and, for each commit, its list of files.\<close>

record WebhookPayload =
  wp_provider :: provider
  wp_event :: string
  wp_branch :: "json option"
  wp_commits :: "json list list option"

text \<open>Request headers, with the names in lower case; an empty value is falsy.\<close>

definition header :: "(string \<times> string) list \<Rightarrow> string \<Rightarrow> string option" where
  "header headers name =
     (case map_of headers name of None \<Rightarrow> None | Some v \<Rightarrow> if v = [] then None else Some v)"

definition parseWebhookPayload :: "(string \<times> string) list \<Rightarrow> json \<Rightarrow> js_error + WebhookPayload" where
  "parseWebhookPayload headers payload' =
     (case header headers ''x-github-event'' of
        Some event \<Rightarrow>
          (case get payload' ''ref'' of
             Inl e \<Rightarrow> Inl e
           | Inr ref \<Rightarrow>
               (case (if nullish ref then Inr None
                      else case ref of
                             Some (JStr s) \<Rightarrow> Inr (Some (JStr (replace_first ''refs/heads/'' [] s)))
                           | _ \<Rightarrow> Inl TypeError) of
                  Inl e \<Rightarrow> Inl e
                | Inr branch' \<Rightarrow>
                    (case opt_map github_commit_files (opt_get (Some payload') ''commits'') of
                       Inl e \<Rightarrow> Inl e
                     | Inr commits \<Rightarrow>
                         Inr \<lparr>wp_provider = Github, wp_event = event, wp_branch = branch',
                              wp_commits = commits\<rparr>)))
      | None \<Rightarrow>
          (case header headers ''x-event-key'' of
             Some eventKey \<Rightarrow>
               (case get payload' ''push'' of
                  Inl e \<Rightarrow> Inl e
                | Inr push' \<Rightarrow>
                    let change = opt_first (opt_get push' ''changes'') in
                    (case opt_map bitbucket_commit_files (opt_get change ''commits'') of
                       Inl e \<Rightarrow> Inl e
                     | Inr commits \<Rightarrow>
                         Inr \<lparr>wp_provider = Bitbucket, wp_event = eventKey,
                              wp_branch = opt_get (opt_get change ''new'') ''name'',
                              wp_commits = commits\<rparr>))
           | None \<Rightarrow>
               Inr \<lparr>wp_provider = Unknown, wp_event = ''unknown'', wp_branch = None,
                    wp_commits = None\<rparr>))"

subsection \<open>What the handler takes from the platform\<close>

text \<open>
  \<open>json_parse\<close> is \<^verbatim>\<open>JSON.parse\<close> (\<open>None\<close>: a syntax error); \<open>hmac_sha256_hex\<close> gives the
  hexadecimal HMAC-SHA256 digest of a message under a key; \<open>regex_test\<close> builds a
  \<^verbatim>\<open>RegExp\<close> from a source text and tests a value with it (the construction may throw);
  \<open>dirname\<close> is \<^verbatim>\<open>path.dirname\<close>.
\<close>

record platform =
  json_parse :: "string \<Rightarrow> json option"
  hmac_sha256_hex :: "string \<Rightarrow> string \<Rightarrow> string"
  regex_test :: "string \<Rightarrow> json \<Rightarrow> js_error + bool"
  dirname :: "string \<Rightarrow> string"

subsection \<open>Signature verification\<close>

definition RangeError :: js_error where
  "RangeError = PlainError (Some ''Input buffers must have the same byte length'')"

text \<open>\<^verbatim>\<open>crypto.timingSafeEqual\<close> throws when the two buffers differ in length.\<close>

definition timingSafeEqual :: "string \<Rightarrow> string \<Rightarrow> js_error + bool" where
  "timingSafeEqual a b = (if length a \<noteq> length b then Inl RangeError else Inr (a = b))"

definition verifyGitHubSignature :: "platform \<Rightarrow> string \<Rightarrow> string \<Rightarrow> string \<Rightarrow> js_error + bool" where
  "verifyGitHubSignature P secret' payload' signature =
     (let digest = ''sha256='' @ hmac_sha256_hex P secret' payload'
      in timingSafeEqual signature digest)"

definition verifySignature ::
  "platform \<Rightarrow> string \<Rightarrow> (string \<times> string) list \<Rightarrow> string \<Rightarrow> provider \<Rightarrow> js_error + bool" where
  "verifySignature P secret' headers body provider' =
     (if secret' = [] then Inr True
      else case provider' of
             Github \<Rightarrow>
               (case header headers ''x-hub-signature-256'' of
                  None \<Rightarrow> Inr False
                | Some githubSignature \<Rightarrow> verifyGitHubSignature P secret' body githubSignature)
           | Bitbucket \<Rightarrow> Inr True
           | Unknown \<Rightarrow> Inr False)"

subsection \<open>Filters\<close>

record filterOptions =
  f_branches :: "string list option"
  f_events :: "string list option"
  f_paths :: "string list option"

definition glob_to_regex :: "string \<Rightarrow> string" where
  "glob_to_regex pattern =
     ''^'' @ concat (map (\<lambda>c. if c = CHR ''*'' then ''.*'' else [c]) pattern) @ ''$''"

text \<open>\<^verbatim>\<open>matchPath\<close>: \<^verbatim>\<open>startsWith\<close> and \<^verbatim>\<open>path.dirname\<close> throw on a file that is not a
  string.\<close>

definition matchPath :: "platform \<Rightarrow> json \<Rightarrow> string \<Rightarrow> js_error + bool" where
  "matchPath P filePath pattern =
     (if endsWith pattern ''/**'' then
        (case filePath of
           JStr f \<Rightarrow> Inr (startsWith f (take (length pattern - 3) pattern))
         | _ \<Rightarrow> Inl TypeError)
      else if endsWith pattern ''/*'' then
        (case filePath of
           JStr f \<Rightarrow> Inr (dirname P f = take (length pattern - 2) pattern)
         | _ \<Rightarrow> Inl TypeError)
      else if CHR ''*'' \<in> set pattern then regex_test P (glob_to_regex pattern) filePath
      else Inr (filePath = JStr pattern))"

text \<open>\<^verbatim>\<open>Array.prototype.some\<close> with a callback that may throw.\<close>

fun some_throwing :: "('a \<Rightarrow> js_error + bool) \<Rightarrow> 'a list \<Rightarrow> js_error + bool" where
  "some_throwing f [] = Inr False"
| "some_throwing f (x # xs) =
     (case f x of
        Inl e \<Rightarrow> Inl e
      | Inr True \<Rightarrow> Inr True
      | Inr False \<Rightarrow> some_throwing f xs)"

definition shouldProcessWebhook ::
  "platform \<Rightarrow> filterOptions option \<Rightarrow> WebhookPayload \<Rightarrow> js_error + bool" where
  "shouldProcessWebhook P filters wp =
     (case filters of
        None \<Rightarrow> Inr True
      | Some fo \<Rightarrow>
          if (case f_branches fo of
                Some bs \<Rightarrow> bs \<noteq> [] \<and> truthy (wp_branch wp) \<and> wp_branch wp \<notin> set (map (\<lambda>b. Some (JStr b)) bs)
              | None \<Rightarrow> False)
          then Inr False
          else if (case f_events fo of
                     Some es \<Rightarrow> es \<noteq> [] \<and> wp_event wp \<notin> set es
                   | None \<Rightarrow> False)
          then Inr False
          else
            (case (f_paths fo, wp_commits wp) of
               (Some ps, Some commits) \<Rightarrow>
                 if ps \<noteq> [] then
                   (case some_throwing (\<lambda>file. some_throwing (matchPath P file) ps)
                           (concat commits) of
                      Inl e \<Rightarrow> Inl e
                    | Inr hasMatchingFile \<Rightarrow> Inr hasMatchingFile)
                 else Inr True
             | _ \<Rightarrow> Inr True))"

subsection \<open>The server and the ingest handler\<close>

record webhookStats =
  st_total :: nat
  st_successful :: nat
  st_failed :: nat
  st_filtered :: nat
  st_queued :: nat
  st_lastWebhook :: "int option"

record log_entry =
  le_timestamp :: int
  le_ip :: string
  le_provider :: string
  le_event :: string
  le_branch :: "json option"
  le_status :: string
  le_error :: "string option"

text \<open>The server: its secret and filters, the queue (when queueing is enabled), the
  statistics, the rolling log, and \<open>scheduled\<close>, the payloads for which a timer has been
  set that will call \<^verbatim>\<open>onWebhook\<close>, that is, trigger a sync.\<close>

record WebhookServer =
  secret :: string
  filters :: "filterOptions option"
  webhookQueue :: "WebhookPayload WebhookQueue option"
  stats :: webhookStats
  webhookLog :: "log_entry list"
  scheduled :: "WebhookPayload list"

definition logWebhook ::
  "int \<Rightarrow> string \<Rightarrow> WebhookPayload \<Rightarrow> string \<Rightarrow> string option \<Rightarrow> WebhookServer \<Rightarrow> WebhookServer" where
  "logWebhook now ip wp status' error' srv =
     (let entry = \<lparr>le_timestamp = now, le_ip = ip, le_provider = provider_name (wp_provider wp),
                    le_event = wp_event wp, le_branch = wp_branch wp, le_status = status',
                    le_error = error'\<rparr>;
          log' = webhookLog srv @ [entry]
      in srv\<lparr>webhookLog := (if length log' > 100 then tl log' else log')\<rparr>)"

record response =
  statusCode :: nat
  resp_headers :: "(string \<times> string) list"
  resp_body :: string

definition respond :: "nat \<Rightarrow> (string \<times> string) list \<Rightarrow> string \<Rightarrow> response" where
  "respond c hs b = \<lparr>statusCode = c, resp_headers = hs, resp_body = b\<rparr>"

text \<open>
  The callback of \<^verbatim>\<open>req.on('end')\<close> in \<^verbatim>\<open>handleWebhook\<close>, for a POST to the ingest path with
  the given headers and body; \<open>now\<close>, \<open>rnd\<close> and \<open>ip\<close> are \<^verbatim>\<open>Date.now()\<close>, the random part
  of a queue id and the client address. Every error thrown inside the \<^verbatim>\<open>try\<close> block ends
  in the \<^verbatim>\<open>catch\<close>: 400.
\<close>

definition handleWebhook ::
  "platform \<Rightarrow> int \<Rightarrow> string \<Rightarrow> string \<Rightarrow> (string \<times> string) list \<Rightarrow> string \<Rightarrow> WebhookServer \<Rightarrow>
   response \<times> WebhookServer" where
  "handleWebhook P now rnd ip headers body srv =
     (case json_parse P body of
        None \<Rightarrow> (respond 400 [] ''Bad request'', srv)
      | Some payload' \<Rightarrow>
          (case parseWebhookPayload headers payload' of
             Inl e \<Rightarrow> (respond 400 [] ''Bad request'', srv)
           | Inr wp \<Rightarrow>
               (case verifySignature P (secret srv) headers body (wp_provider wp) of
                  Inl e \<Rightarrow> (respond 400 [] ''Bad request'', srv)
                | Inr False \<Rightarrow>
                    (respond 401 [] ''Unauthorized'',
                     logWebhook now ip wp ''failed'' (Some ''Invalid signature'') srv)
                | Inr True \<Rightarrow>
                    (case shouldProcessWebhook P (filters srv) wp of
                       Inl e \<Rightarrow> (respond 400 [] ''Bad request'', srv)
                     | Inr False \<Rightarrow>
                         (respond 200 [] ''Filtered'',
                          logWebhook now ip wp ''filtered'' None
                            (srv\<lparr>stats := (stats srv)\<lparr>st_filtered := st_filtered (stats srv) + 1\<rparr>\<rparr>))
                     | Inr True \<Rightarrow>
                         let srv1 = srv\<lparr>stats := (stats srv)\<lparr>st_total := st_total (stats srv) + 1,
                                                             st_lastWebhook := Some now\<rparr>\<rparr>
                         in (case webhookQueue srv1 of
                               Some q \<Rightarrow>
                                 (case wq_enqueue wp now rnd q of
                                    (Some queueId, q') \<Rightarrow>
                                      (respond 200 [(''X-Queue-ID'', queueId)] ''Queued'',
                                       logWebhook now ip wp ''queued'' None
                                         (srv1\<lparr>webhookQueue := Some q',
                                               stats := (stats srv1)\<lparr>st_queued := st_queued (stats srv1) + 1\<rparr>\<rparr>))
                                  | (None, q') \<Rightarrow>
                                      (respond 503 [(''Retry-After'', ''60'')]
                                         ''Service temporarily unavailable - queue full'',
                                       srv1\<lparr>webhookQueue := Some q'\<rparr>))
                             | None \<Rightarrow>
                                 (respond 200 [] ''OK'',
                                  srv1\<lparr>scheduled := scheduled srv1 @ [wp]\<rparr>))))))"

subsection \<open>An example platform and server\<close>

definition body_main :: string where
  \<open>body_main = ''{"ref":"refs/heads/main"}''\<close>

text \<open>\<open>body_main\<close> with its last letter changed, and with its last brace changed.\<close>

definition body_tampered :: string where
  \<open>body_tampered = ''{"ref":"refs/heads/mail"}''\<close>


text \<open>The answers of the platform for the bodies above and the key \<^verbatim>\<open>s3cret\<close>: the parse
  results, and the HMAC-SHA256 digests as computed by a reference implementation. No
  filter in the examples uses a pattern.\<close>

definition example_platform :: platform where
  "example_platform =
     \<lparr>json_parse = (\<lambda>b. if b = body_main then Some (JObj [(''ref'', JStr ''refs/heads/main'')])
                        else if b = body_tampered then Some (JObj [(''ref'', JStr ''refs/heads/mail'')])
                        else None),
      hmac_sha256_hex = (\<lambda>k m.
         if k = ''s3cret'' \<and> m = body_main
         then ''232a5e067b6a5aa567ed5a1d21a0dffaf6ef0eeecb6bd9bcf43b3d5ef3fc4f43''
         else ''6b4c2e75afd9fe2eca43d686b11f2b98dcc751061688da479ffa4c7b85c6e561''),
      regex_test = (\<lambda>src v. Inr False),
      dirname = (\<lambda>f. ''.'')\<rparr>"

definition signature_main :: string where
  "signature_main = ''sha256=232a5e067b6a5aa567ed5a1d21a0dffaf6ef0eeecb6bd9bcf43b3d5ef3fc4f43''"

definition empty_stats :: webhookStats where
  "empty_stats = \<lparr>st_total = 0, st_successful = 0, st_failed = 0, st_filtered = 0, st_queued = 0,
                  st_lastWebhook = None\<rparr>"

text \<open>A server with the secret \<^verbatim>\<open>s3cret\<close>, no filters and no queue; and one with a queue of
  size one that holds a webhook already.\<close>

definition example_server :: WebhookServer where
  "example_server = \<lparr>secret = ''s3cret'', filters = None, webhookQueue = None,
                      stats = empty_stats, webhookLog = [], scheduled = []\<rparr>"

definition example_payload :: WebhookPayload where
  "example_payload = \<lparr>wp_provider = Github, wp_event = ''push'',
                       wp_branch = Some (JStr ''main''), wp_commits = None\<rparr>"

definition full_queue :: "WebhookPayload WebhookQueue" where
  "full_queue = snd (wq_enqueue example_payload 5 ''k3x9'' (new_WebhookQueue (Some 1) None None))"

definition full_server :: WebhookServer where
  "full_server = example_server\<lparr>webhookQueue := Some full_queue\<rparr>"

section \<open>The retry loop\<close>







section \<open>The circuit breaker\<close>









section \<open>The queues: one drain loop each\<close>

lemma insert_by_priority_not_Nil: "insert_by_priority item q \<noteq> []"
  by (simp add: insert_by_priority_def)

lemma single_flight_cases:
  "single_flight s =
     ((\<not> processing s \<and> inflight s = [] \<and> sleeping s = 0) \<or>
      (processing s \<and> (\<exists>x. inflight s = [x]) \<and> sleeping s = 0) \<or>
      (processing s \<and> inflight s = [] \<and> sleeping s = Suc 0))"
  by (auto simp: single_flight_def length_Suc_conv add_is_1)

lemma enqueue_single_flight:
  "single_flight s \<Longrightarrow> single_flight (snd (enqueue op pr id_arg now rnd s))"
  by (auto simp: enqueue_def Let_def single_flight_cases process_def drain_def
                 insert_by_priority_not_Nil split: list.splits if_splits)

lemma finish_single_flight:
  "single_flight s \<Longrightarrow> single_flight (finish k outcome s)"
  by (auto simp: finish_def Let_def single_flight_cases drain_def clear_def emit_settle_def
           split: list.splits if_splits sum.splits)

lemma wake_single_flight: "single_flight s \<Longrightarrow> single_flight (wake s)"
  by (auto simp: wake_def single_flight_cases drain_def split: list.splits if_splits)

lemma clear_single_flight: "single_flight s \<Longrightarrow> single_flight (clear s)"
  by (simp add: clear_def single_flight_cases)

lemma remove_single_flight: "single_flight s \<Longrightarrow> single_flight (snd (remove i s))"
  by (auto simp: remove_def single_flight_cases)

lemma queue_step_single_flight: "single_flight s \<Longrightarrow> single_flight (queue_step ev s)"
  by (cases ev)
     (simp_all add: enqueue_single_flight finish_single_flight wake_single_flight
                    clear_single_flight remove_single_flight)

lemma resume_each_base:
  "queue (resume_each ws s) = queue s \<and> processing (resume_each ws s) = processing s \<and>
   inflight (resume_each ws s) = inflight s \<and> sleeping (resume_each ws s) = sleeping s \<and>
   listeners (resume_each ws s) = listeners s \<and> next_promise (resume_each ws s) = next_promise s \<and>
   debounceTimer (resume_each ws s) = debounceTimer s"
  by (induction ws s rule: resume_each.induct) (auto split: option.splits)

lemma resume_single_flight: "single_flight s \<Longrightarrow> single_flight (resume s)"
  by (simp add: resume_def single_flight_def resume_each_base)

lemma enqueueDebounced_single_flight:
  "single_flight s \<Longrightarrow> single_flight (snd (enqueueDebounced op s))"
  by (simp add: enqueueDebounced_def single_flight_def Let_def)

lemma timer_fires_single_flight:
  assumes "single_flight s"
  shows "single_flight (timer_fires now rnd s)"
proof (cases "debounceTimer s")
  case None
  with assms show ?thesis by (simp add: timer_fires_def)
next
  case (Some p)
  let ?s0 = "s\<lparr>debounceTimer := None\<rparr>"
  have s0: "single_flight ?s0" using assms by (simp add: single_flight_def)
  show ?thesis
  proof (cases "pendingOperation s")
    case None
    with Some s0 show ?thesis by (simp add: timer_fires_def Let_def)
  next
    case (Some op)
    obtain q s1 where e: "enqueue op 0 (Some ''debounced-sync'') now rnd ?s0 = (q, s1)"
      by (cases "enqueue op 0 (Some ''debounced-sync'') now rnd ?s0")
    have "single_flight s1"
      using enqueue_single_flight[OF s0, of op 0 "Some ''debounced-sync''" now rnd] e by simp
    then have "single_flight (s1\<lparr>awaiting := awaiting s1 @ [(q, p)]\<rparr>)"
      by (simp add: single_flight_def)
    then have "single_flight (resume (s1\<lparr>awaiting := awaiting s1 @ [(q, p)]\<rparr>))"
      by (rule resume_single_flight)
    with \<open>debounceTimer s = Some p\<close> Some e show ?thesis
      by (simp add: timer_fires_def Let_def)
  qed
qed

lemma debounced_step_single_flight:
  "single_flight s \<Longrightarrow> single_flight (debounced_step ev s)"
  by (cases ev)
     (simp_all add: resume_single_flight queue_step_single_flight
                    enqueueDebounced_single_flight timer_fires_single_flight)







section \<open>Enqueueing under an id\<close>

lemma enqueue_duplicate:
  assumes "i \<noteq> []" and "i \<in> set (queued_ids s)"
  shows "enqueue op pr (Some i) now rnd s =
           (next_promise s,
            s\<lparr>next_promise := Suc (next_promise s),
              settled := settled s @ [(next_promise s, Rejected (duplicate_error i))]\<rparr>)"
  using assms by (simp add: enqueue_def Let_def queued_ids_def)

lemma set_insert_by_priority:
  "set (insert_by_priority item q) = insert item (set q)"
proof -
  have "set q = set (takeWhile (\<lambda>x. \<not> priority x < priority item) q) \<union>
                set (dropWhile (\<lambda>x. \<not> priority x < priority item) q)"
    by (metis set_append takeWhile_dropWhile_id)
  then show ?thesis by (auto simp: insert_by_priority_def)
qed

lemma length_insert_by_priority:
  "length (insert_by_priority item q) = Suc (length q)"
proof -
  have "length q = length (takeWhile (\<lambda>x. \<not> priority x < priority item) q) +
                   length (dropWhile (\<lambda>x. \<not> priority x < priority item) q)"
    by (metis length_append takeWhile_dropWhile_id)
  then show ?thesis by (simp add: insert_by_priority_def)
qed

lemma process_waiting:
  "set (queue (process s) @ inflight (process s)) = set (queue s @ inflight s) \<and>
   length (queue (process s) @ inflight (process s)) = length (queue s @ inflight s) \<and>
   settled (process s) = settled s \<and> listeners (process s) = listeners s \<and>
   next_promise (process s) = next_promise s"
  by (auto simp: process_def drain_def split: list.splits)

lemma enqueue_accepted:
  assumes "i \<noteq> []" and "i \<notin> set (queued_ids s)"
  shows "\<exists>s'. enqueue op pr (Some i) now rnd s = (next_promise s, s') \<and>
           settled s' = settled s \<and>
           listeners s' = listeners s @ [(next_promise s, i)] \<and>
           next_promise s' = Suc (next_promise s) \<and>
           set (queue s' @ inflight s') =
             insert \<lparr>item_id = i, item_operation = op, priority = pr, timestamp = now, retries = 0\<rparr>
               (set (queue s @ inflight s)) \<and>
           length (queue s' @ inflight s') = Suc (length (queue s @ inflight s))"
proof -
  let ?item = "\<lparr>item_id = i, item_operation = op, priority = pr, timestamp = now, retries = 0\<rparr>"
  let ?s1 = "s\<lparr>next_promise := Suc (next_promise s), queue := insert_by_priority ?item (queue s)\<rparr>"
  let ?s2 = "if \<not> processing ?s1 then process ?s1 else ?s1"
  have e: "enqueue op pr (Some i) now rnd s
             = (next_promise s, ?s2\<lparr>listeners := listeners ?s2 @ [(next_promise s, i)]\<rparr>)"
    using assms by (simp add: enqueue_def Let_def queued_ids_def)
  have w: "set (queue ?s2 @ inflight ?s2) = insert ?item (set (queue s @ inflight s)) \<and>
           length (queue ?s2 @ inflight ?s2) = Suc (length (queue s @ inflight s)) \<and>
           settled ?s2 = settled s \<and> listeners ?s2 = listeners s \<and>
           next_promise ?s2 = Suc (next_promise s)"
    using process_waiting[of ?s1]
    by (auto simp: set_insert_by_priority length_insert_by_priority)
  show ?thesis
    by (rule exI[of _ "?s2\<lparr>listeners := listeners ?s2 @ [(next_promise s, i)]\<rparr>"])
       (use e w in simp)
qed

lemma drain_queue_subset: "set (queue (drain s)) \<subseteq> set (queue s)"
  by (auto simp: drain_def split: list.splits)

lemma finish_terminal_queue:
  assumes "k < length (inflight s)"
    and "case outcome of Inr r \<Rightarrow> True
         | Inl e \<Rightarrow> isSpawnError e \<or> \<not> Suc (retries (inflight s ! k)) < q_maxRetries s"
  shows "set (queue (finish k outcome s)) \<subseteq> set (queue s)"
proof (cases outcome)
  case (Inr r)
  with assms(1) show ?thesis
    using drain_queue_subset[of "emit_settle (item_id (inflight s ! k)) (Resolved r)
            (s\<lparr>inflight := take k (inflight s) @ drop (Suc k) (inflight s)\<rparr>)"]
    by (simp add: finish_def Let_def emit_settle_def)
next
  case (Inl e)
  show ?thesis
  proof (cases "isSpawnError e")
    case True
    with Inl assms(1) show ?thesis
      by (simp add: finish_def Let_def emit_settle_def clear_def drain_def)
  next
    case False
    with Inl assms have "\<not> Suc (retries (inflight s ! k)) < q_maxRetries s" by simp
    with False Inl assms(1) show ?thesis
      using drain_queue_subset[of "emit_settle (item_id (inflight s ! k)) (Rejected e)
            (s\<lparr>inflight := take k (inflight s) @ drop (Suc k) (inflight s)\<rparr>)"]
      by (simp add: finish_def Let_def emit_settle_def)
  qed
qed

text \<open>
  Claim C4, as stated, fails: the duplicate check of \<^verbatim>\<open>enqueue\<close> looks at the waiting items
  only, and the item in flight has been shifted off the queue. An id in flight is accepted
  a second time, and the retry of the first operation puts it back beside the second: two
  waiting operations have the same id.
\<close>

theorem same_id_queued_twice:
  "queued_ids (queue_run
      [Enqueue (1::nat) 0 (Some ''x'') 5 ''0.1'', Enqueue 2 0 (Some ''x'') 6 ''0.2'',
       Finish 0 (Inl (PlainError (Some ''boom'')))]
      (new_SyncQueue 3 :: (nat, unit) SyncQueue)) = [''x'', ''x''] \<and>
   settled (queue_run
      [Enqueue (1::nat) 0 (Some ''x'') 5 ''0.1'', Enqueue 2 0 (Some ''x'') 6 ''0.2'',
       Finish 0 (Inl (PlainError (Some ''boom'')))]
      (new_SyncQueue 3 :: (nat, unit) SyncQueue)) = []"
  by code_simp

text \<open>
  Claim C4, amended. For every queue state and every explicit, non-empty id: when an item
  with this id is waiting in the queue, \<^verbatim>\<open>enqueue\<close> returns a promise rejected with the
  duplicate error and changes nothing else (the waiting item is neither merged nor
  replaced); when no waiting item has this id, whether or not an operation with it is in
  flight, \<^verbatim>\<open>enqueue\<close> accepts: it adds the new item to the waiting and in-flight items and
  registers the handlers of a pending promise; and when the operation in flight succeeds
  or fails terminally (a spawn fault, or no retry left), no item comes back into the queue,
  so an id that was not waiting before is accepted afterwards.
\<close>

theorem enqueue_by_id:
  fixes s :: "('op, 'r, 'z) SyncQueue_scheme"
  shows
  "(i \<noteq> [] \<and> i \<in> set (queued_ids s) \<longrightarrow>
      enqueue op pr (Some i) now rnd s =
        (next_promise s,
         s\<lparr>next_promise := Suc (next_promise s),
           settled := settled s @ [(next_promise s, Rejected (duplicate_error i))]\<rparr>))
   \<and>
   (i \<noteq> [] \<and> i \<notin> set (queued_ids s) \<longrightarrow>
      (\<exists>s'. enqueue op pr (Some i) now rnd s = (next_promise s, s') \<and>
         settled s' = settled s \<and>
         listeners s' = listeners s @ [(next_promise s, i)] \<and>
         set (queue s' @ inflight s') =
           insert \<lparr>item_id = i, item_operation = op, priority = pr, timestamp = now, retries = 0\<rparr>
             (set (queue s @ inflight s)) \<and>
         length (queue s' @ inflight s') = Suc (length (queue s @ inflight s))))
   \<and>
   (k < length (inflight s) \<and> i \<notin> set (queued_ids s) \<and>
    (case outcome of Inr r \<Rightarrow> True
     | Inl e \<Rightarrow> isSpawnError e \<or> \<not> Suc (retries (inflight s ! k)) < q_maxRetries s) \<longrightarrow>
      i \<notin> set (queued_ids (finish k outcome s)))"
proof (intro conjI impI)
  assume "i \<noteq> [] \<and> i \<in> set (queued_ids s)"
  then show "enqueue op pr (Some i) now rnd s =
        (next_promise s,
         s\<lparr>next_promise := Suc (next_promise s),
           settled := settled s @ [(next_promise s, Rejected (duplicate_error i))]\<rparr>)"
    by (simp add: enqueue_duplicate)
next
  assume "i \<noteq> [] \<and> i \<notin> set (queued_ids s)"
  then show "\<exists>s'. enqueue op pr (Some i) now rnd s = (next_promise s, s') \<and>
         settled s' = settled s \<and>
         listeners s' = listeners s @ [(next_promise s, i)] \<and>
         set (queue s' @ inflight s') =
           insert \<lparr>item_id = i, item_operation = op, priority = pr, timestamp = now, retries = 0\<rparr>
             (set (queue s @ inflight s)) \<and>
         length (queue s' @ inflight s') = Suc (length (queue s @ inflight s))"
    using enqueue_accepted[of i s op pr now rnd] by blast
next
  assume a: "k < length (inflight s) \<and> i \<notin> set (queued_ids s) \<and>
    (case outcome of Inr r \<Rightarrow> True
     | Inl e \<Rightarrow> isSpawnError e \<or> \<not> Suc (retries (inflight s ! k)) < q_maxRetries s)"
  then have "set (queue (finish k outcome s)) \<subseteq> set (queue s)"
    by (intro finish_terminal_queue) simp_all
  with a show "i \<notin> set (queued_ids (finish k outcome s))"
    by (auto simp: queued_ids_def)
qed

theorem enqueue_by_id_witness:
  "(let s0 = queue_run [Enqueue (1::nat) 0 (Some ''x'') 5 ''0.1'', Enqueue 2 0 (Some ''y'') 6 ''0.2'']
               (new_SyncQueue 3 :: (nat, unit) SyncQueue)
    in queued_ids s0 = [''y''] \<and> map item_id (inflight s0) = [''x''] \<and>
       queued_ids (snd (enqueue 3 9 (Some ''y'') 7 ''0.3'' s0)) = [''y''] \<and>
       outcome_of 2 (snd (enqueue 3 9 (Some ''y'') 7 ''0.3'' s0))
         = Some (Rejected (duplicate_error ''y'')) \<and>
       length (queue (snd (enqueue 3 9 (Some ''x'') 7 ''0.3'' s0)) @
               inflight (snd (enqueue 3 9 (Some ''x'') 7 ''0.3'' s0))) = 3 \<and>
       ''x'' \<notin> set (queued_ids (finish 0 (Inr ()) s0)))"
proof -
  define s0 where "s0 = queue_run [Enqueue (1::nat) 0 (Some ''x'') 5 ''0.1'',
      Enqueue 2 0 (Some ''y'') 6 ''0.2''] (new_SyncQueue 3 :: (nat, unit) SyncQueue)"
  have ev: "s0 = \<lparr>queue = [\<lparr>item_id = ''y'', item_operation = 2, priority = 0, timestamp = 6, retries = 0\<rparr>],
      processing = True, q_maxRetries = 3,
      inflight = [\<lparr>item_id = ''x'', item_operation = 1, priority = 0, timestamp = 5, retries = 0\<rparr>],
      sleeping = 0, listeners = [(0, ''x''), (1, ''y'')], settled = [], next_promise = 2\<rparr>"
    unfolding s0_def by code_simp
  have q: "queued_ids s0 = [''y'']" "map item_id (inflight s0) = [''x'']"
          "length (inflight s0) = 1" "length (queue s0) = 1" "next_promise s0 = 2" "settled s0 = []"
    by (simp_all add: ev queued_ids_def)
  note A = enqueue_by_id[where s = s0 and i = "''y''" and op = 3 and pr = 9 and now = 7
             and rnd = "''0.3''"]
  note B = enqueue_by_id[where s = s0 and i = "''x''" and op = 3 and pr = 9 and now = 7
             and rnd = "''0.3''" and k = 0 and outcome = "Inr ()"]
  have a: "enqueue 3 9 (Some ''y'') 7 ''0.3'' s0 =
        (2, s0\<lparr>next_promise := 3, settled := [(2, Rejected (duplicate_error ''y''))]\<rparr>)"
    using A q by simp
  have b: "length (queue (snd (enqueue 3 9 (Some ''x'') 7 ''0.3'' s0)) @
                   inflight (snd (enqueue 3 9 (Some ''x'') 7 ''0.3'' s0))) = 3"
    using B q by auto
  have c: "''x'' \<notin> set (queued_ids (finish 0 (Inr ()) s0))"
    using B q by simp
  from q a b c show ?thesis
    unfolding Let_def s0_def[symmetric] by (simp add: outcome_of_def queued_ids_def)
qed

section \<open>Spawn faults, clear and the pending promises\<close>













section \<open>Debounced calls\<close>

lemma outcome_of_append:
  "outcome_of p (s\<lparr>settled := settled s @ xs\<rparr>) =
     (case outcome_of p s of Some v \<Rightarrow> Some v | None \<Rightarrow> map_of xs p)"
  by (simp add: outcome_of_def map_add_def split: option.splits)

lemma enqueue_fields:
  "next_promise (snd (enqueue op pr id_arg now rnd s)) = Suc (next_promise s) \<and>
   fst (enqueue op pr id_arg now rnd s) = next_promise s \<and>
   (\<exists>xs. settled (snd (enqueue op pr id_arg now rnd s)) = settled s @ xs \<and>
         set (map fst xs) \<subseteq> {next_promise s}) \<and>
   (\<exists>ys. listeners (snd (enqueue op pr id_arg now rnd s)) = listeners s @ ys \<and>
         set (map fst ys) \<subseteq> {next_promise s})"
  by (auto simp: enqueue_def Let_def process_def drain_def split: list.splits)

lemma finish_fields:
  "next_promise (finish k outcome s) = next_promise s \<and>
   set (map fst (listeners (finish k outcome s))) \<subseteq> set (map fst (listeners s)) \<and>
   (\<exists>xs. settled (finish k outcome s) = settled s @ xs \<and>
         set (map fst xs) \<subseteq> set (map fst (listeners s)))"
  by (auto simp: finish_def Let_def drain_def clear_def emit_settle_def
           split: list.splits sum.splits intro: rev_image_eqI)

lemma queue_step_fields:
  "next_promise s \<le> next_promise (queue_step ev s) \<and>
   set (map fst (listeners (queue_step ev s)))
      \<subseteq> set (map fst (listeners s)) \<union> {next_promise s..<next_promise (queue_step ev s)} \<and>
   (\<exists>xs. settled (queue_step ev s) = settled s @ xs \<and>
         set (map fst xs) \<subseteq> set (map fst (listeners s)) \<union>
              {next_promise s..<next_promise (queue_step ev s)})"
proof (cases ev)
  case (Enqueue op pr id_arg now rnd)
  from enqueue_fields[of op pr id_arg now rnd s] obtain xs ys where
    f: "next_promise (snd (enqueue op pr id_arg now rnd s)) = Suc (next_promise s)"
       "settled (snd (enqueue op pr id_arg now rnd s)) = settled s @ xs"
       "set (map fst xs) \<subseteq> {next_promise s}"
       "listeners (snd (enqueue op pr id_arg now rnd s)) = listeners s @ ys"
       "set (map fst ys) \<subseteq> {next_promise s}"
    by blast
  with Enqueue show ?thesis by auto
next
  case (Finish k outcome)
  with finish_fields[of k outcome s] show ?thesis by auto
next
  case Wake
  then show ?thesis by (simp add: wake_def drain_def split: list.splits)
next
  case Clear
  then show ?thesis by (simp add: clear_def)
next
  case (Remove j)
  then show ?thesis by (simp add: remove_def)
qed

lemma queue_step_extension:
  fixes s :: "('op, 'r) DebouncedSyncQueue"
  shows "awaiting (queue_step ev s) = awaiting s \<and>
         debounceTimer (queue_step ev s) = debounceTimer s \<and>
         pendingOperation (queue_step ev s) = pendingOperation s"
  by (cases ev)
     (auto simp: enqueue_def finish_def wake_def clear_def remove_def Let_def process_def
                 drain_def emit_settle_def split: list.splits sum.splits)

lemma outcome_of_None_iff: "outcome_of p s = None \<longleftrightarrow> p \<notin> set (map fst (settled s))"
  by (simp add: outcome_of_def map_of_eq_None_iff)

lemma unreachable_queue_step:
  assumes "unreachable_promise p s"
  shows "unreachable_promise p (queue_step ev s)"
proof -
  from queue_step_fields[of s ev] obtain xs where
    f: "next_promise s \<le> next_promise (queue_step ev s)"
       "set (map fst (listeners (queue_step ev s)))
          \<subseteq> set (map fst (listeners s)) \<union> {next_promise s..<next_promise (queue_step ev s)}"
       "settled (queue_step ev s) = settled s @ xs"
       "set (map fst xs) \<subseteq> set (map fst (listeners s)) \<union>
              {next_promise s..<next_promise (queue_step ev s)}"
    by blast
  from assms have a: "p < next_promise s" "p \<notin> set (map fst (settled s))"
      "p \<notin> set (map snd (awaiting s))" "p \<notin> set (map fst (listeners s))"
    by (simp_all add: unreachable_promise_def outcome_of_None_iff)
  from a f(4) have "p \<notin> set (map fst xs)" by auto
  with a(2) f(3) have 1: "p \<notin> set (map fst (settled (queue_step ev s)))" by simp
  from a f(2) have 2: "p \<notin> set (map fst (listeners (queue_step ev s)))" by auto
  from a(1) f(1) have 3: "p < next_promise (queue_step ev s)" by simp
  from 1 2 3 a(3) show ?thesis
    by (simp add: unreachable_promise_def outcome_of_None_iff queue_step_extension)
qed

lemma unreachable_resume_each:
  "unreachable_promise p s \<Longrightarrow> p \<notin> set (map snd ws) \<Longrightarrow>
   unreachable_promise p (resume_each ws s)"
proof (induction ws s rule: resume_each.induct)
  case (1 s)
  then show ?case by simp
next
  case (2 q p' ws s)
  show ?case
  proof (cases "outcome_of q s")
    case None
    with 2 show ?thesis by simp
  next
    case (Some out)
    let ?s' = "s\<lparr>settled := settled s @ [(p', out)], pendingOperation := None,
                 awaiting := removeAll (q, p') (awaiting s)\<rparr>"
    from "2.prems" have "unreachable_promise p ?s'"
      by (auto simp: unreachable_promise_def outcome_of_None_iff)
    with 2 Some show ?thesis by simp
  qed
qed

lemma unreachable_resume: "unreachable_promise p s \<Longrightarrow> unreachable_promise p (resume s)"
  unfolding resume_def
  by (rule unreachable_resume_each) (simp_all add: unreachable_promise_def)

lemma resume_timer: "debounceTimer (resume s) = debounceTimer s"
  by (simp add: resume_def resume_each_base)

lemma unreachable_enqueueDebounced:
  "unreachable_promise p s \<Longrightarrow> abandoned p (snd (enqueueDebounced op s))"
  by (auto simp: abandoned_def unreachable_promise_def enqueueDebounced_def Let_def
                 outcome_of_None_iff)

lemma abandoned_timer_fires:
  assumes "abandoned p s"
  shows "abandoned p (timer_fires now rnd s)"
proof (cases "debounceTimer s")
  case None
  with assms show ?thesis by (simp add: timer_fires_def)
next
  case (Some p')
  with assms have ne: "p' \<noteq> p" by (auto simp: abandoned_def)
  let ?s0 = "s\<lparr>debounceTimer := None\<rparr>"
  from assms have u0: "unreachable_promise p ?s0"
    by (simp add: abandoned_def unreachable_promise_def outcome_of_None_iff)
  show ?thesis
  proof (cases "pendingOperation s")
    case None
    with Some u0 show ?thesis by (simp add: timer_fires_def Let_def abandoned_def)
  next
    case (Some op)
    obtain q s1 where e: "enqueue op 0 (Some ''debounced-sync'') now rnd ?s0 = (q, s1)"
      by (cases "enqueue op 0 (Some ''debounced-sync'') now rnd ?s0")
    have s1: "s1 = queue_step (Enqueue op 0 (Some ''debounced-sync'') now rnd) ?s0"
      using e by simp
    have u1: "unreachable_promise p s1"
      unfolding s1 by (rule unreachable_queue_step[OF u0])
    have t1: "debounceTimer s1 = None"
      unfolding s1
      using queue_step_extension[of "Enqueue op 0 (Some ''debounced-sync'') now rnd" ?s0]
      by simp
    let ?s2 = "s1\<lparr>awaiting := awaiting s1 @ [(q, p')]\<rparr>"
    from u1 ne have "unreachable_promise p ?s2"
      by (simp add: unreachable_promise_def outcome_of_None_iff)
    then have "unreachable_promise p (resume ?s2)" by (rule unreachable_resume)
    moreover have "debounceTimer (resume ?s2) = None" using t1 by (simp add: resume_timer)
    ultimately show ?thesis
      using \<open>debounceTimer s = Some p'\<close> Some e
      by (simp add: timer_fires_def Let_def abandoned_def)
  qed
qed

lemma abandoned_step: "abandoned p s \<Longrightarrow> abandoned p (debounced_step ev s)"
proof (cases ev)
  case (Base e)
  assume "abandoned p s"
  then show ?thesis
    using Base unreachable_resume[OF unreachable_queue_step, of p s e]
    by (simp add: abandoned_def resume_timer queue_step_extension)
next
  case (EnqueueDebounced op)
  assume "abandoned p s"
  then show ?thesis
    using EnqueueDebounced by (simp add: abandoned_def unreachable_enqueueDebounced[unfolded abandoned_def])
next
  case (TimerFires now rnd)
  assume "abandoned p s"
  then show ?thesis using TimerFires by (simp add: abandoned_timer_fires)
qed

lemma abandoned_run: "abandoned p s \<Longrightarrow> abandoned p (debounced_run evs s)"
  unfolding debounced_run_def
  by (induction evs arbitrary: s) (simp_all add: abandoned_step)

lemma unreachable_window_step:
  "unreachable_promise p s \<Longrightarrow> \<not> is_timer_fire ev \<Longrightarrow> unreachable_promise p (debounced_step ev s)"
  by (cases ev)
     (simp_all add: unreachable_resume unreachable_queue_step
                    unreachable_enqueueDebounced[unfolded abandoned_def])

lemma unreachable_window_run:
  "unreachable_promise p s \<Longrightarrow> list_all (\<lambda>ev. \<not> is_timer_fire ev) evs \<Longrightarrow>
   unreachable_promise p (debounced_run evs s)"
  unfolding debounced_run_def
  by (induction evs arbitrary: s) (simp_all add: unreachable_window_step)

lemma debounced_run_append:
  "debounced_run (xs @ ys) s = debounced_run ys (debounced_run xs s)"
  by (simp add: debounced_run_def)

lemma promises_created_iff:
  "promises_created s \<longleftrightarrow>
     (\<forall>p \<in> set (settled s). fst p < next_promise s) \<and>
     (\<forall>p \<in> set (listeners s). fst p < next_promise s) \<and>
     (\<forall>p \<in> set (awaiting s). snd p < next_promise s) \<and>
     (\<forall>p. debounceTimer s = Some p \<longrightarrow> p < next_promise s)"
  by (auto simp: promises_created_def list_all_iff split: option.splits)

lemma created_queue_step:
  assumes "promises_created s"
  shows "promises_created (queue_step ev s)"
proof -
  from queue_step_fields[of s ev] obtain xs where
    f: "next_promise s \<le> next_promise (queue_step ev s)"
       "set (map fst (listeners (queue_step ev s)))
          \<subseteq> set (map fst (listeners s)) \<union> {next_promise s..<next_promise (queue_step ev s)}"
       "settled (queue_step ev s) = settled s @ xs"
       "set (map fst xs) \<subseteq> set (map fst (listeners s)) \<union>
              {next_promise s..<next_promise (queue_step ev s)}"
    by blast
  from assms have a:
      "\<And>p. p \<in> set (map fst (settled s)) \<Longrightarrow> p < next_promise s"
      "\<And>p. p \<in> set (map fst (listeners s)) \<Longrightarrow> p < next_promise s"
      "\<And>p. p \<in> set (map snd (awaiting s)) \<Longrightarrow> p < next_promise s"
      "case debounceTimer s of Some p \<Rightarrow> p < next_promise s | None \<Rightarrow> True"
    by (auto simp: promises_created_def list_all_iff split: option.splits)
  have 1: "p < next_promise (queue_step ev s)" if "p \<in> set (map fst (settled (queue_step ev s)))" for p
  proof -
    from that f(3) have "p \<in> set (map fst (settled s)) \<or> p \<in> set (map fst xs)" by auto
    with f(1,4) a(1,2) show ?thesis by fastforce
  qed
  have 2: "p < next_promise (queue_step ev s)" if "p \<in> set (map fst (listeners (queue_step ev s)))" for p
    using that f(1,2) a(2) by fastforce
  have 3: "p < next_promise (queue_step ev s)" if "p \<in> set (map snd (awaiting (queue_step ev s)))" for p
    using that f(1) a(3) by (fastforce simp: queue_step_extension)
  have 4: "case debounceTimer (queue_step ev s) of Some p \<Rightarrow> p < next_promise (queue_step ev s)
           | None \<Rightarrow> True"
    using a(4) f(1) by (auto simp: queue_step_extension split: option.splits)
  from 1 2 3 4 show ?thesis
    unfolding promises_created_def list_all_iff by force
qed

lemma created_resume_each:
  "promises_created s \<Longrightarrow> list_all (\<lambda>(q, p). p < next_promise s) ws \<Longrightarrow>
   promises_created (resume_each ws s)"
proof (induction ws s rule: resume_each.induct)
  case (1 s)
  then show ?case by simp
next
  case (2 q p' ws s)
  show ?case
  proof (cases "outcome_of q s")
    case None
    with 2 show ?thesis by simp
  next
    case (Some out)
    let ?s' = "s\<lparr>settled := settled s @ [(p', out)], pendingOperation := None,
                 awaiting := removeAll (q, p') (awaiting s)\<rparr>"
    from "2.prems" have "promises_created ?s'"
      by (auto simp: promises_created_iff list_all_iff)
    with 2 Some show ?thesis by simp
  qed
qed

lemma created_resume: "promises_created s \<Longrightarrow> promises_created (resume s)"
  unfolding resume_def
  by (rule created_resume_each) (auto simp: promises_created_iff list_all_iff)

lemma created_enqueueDebounced:
  "promises_created s \<Longrightarrow> promises_created (snd (enqueueDebounced op s))"
  by (auto simp: promises_created_iff enqueueDebounced_def Let_def less_Suc_eq)

lemma created_timer_fires:
  assumes "promises_created s"
  shows "promises_created (timer_fires now rnd s)"
proof (cases "debounceTimer s")
  case None
  with assms show ?thesis by (simp add: timer_fires_def)
next
  case (Some p')
  let ?s0 = "s\<lparr>debounceTimer := None\<rparr>"
  from assms Some have c0: "promises_created ?s0" and lt: "p' < next_promise s"
    by (auto simp: promises_created_iff)
  show ?thesis
  proof (cases "pendingOperation s")
    case None
    with Some c0 show ?thesis by (simp add: timer_fires_def Let_def)
  next
    case (Some op)
    obtain q s1 where e: "enqueue op 0 (Some ''debounced-sync'') now rnd ?s0 = (q, s1)"
      by (cases "enqueue op 0 (Some ''debounced-sync'') now rnd ?s0")
    have s1: "s1 = queue_step (Enqueue op 0 (Some ''debounced-sync'') now rnd) ?s0"
      using e by simp
    have c1: "promises_created s1"
      unfolding s1 by (rule created_queue_step[OF c0])
    have n1: "next_promise s \<le> next_promise s1"
      unfolding s1
      using queue_step_fields[of ?s0 "Enqueue op 0 (Some ''debounced-sync'') now rnd"] by simp
    let ?s2 = "s1\<lparr>awaiting := awaiting s1 @ [(q, p')]\<rparr>"
    from c1 lt n1 have "promises_created ?s2"
      by (auto simp: promises_created_iff)
    then have "promises_created (resume ?s2)" by (rule created_resume)
    with \<open>debounceTimer s = Some p'\<close> Some e show ?thesis
      by (simp add: timer_fires_def Let_def)
  qed
qed

lemma created_step: "promises_created s \<Longrightarrow> promises_created (debounced_step ev s)"
  by (cases ev)
     (simp_all add: created_resume created_queue_step created_enqueueDebounced created_timer_fires)

lemma created_run: "promises_created s \<Longrightarrow> promises_created (debounced_run evs s)"
  unfolding debounced_run_def
  by (induction evs arbitrary: s) (simp_all add: created_step)

lemma created_new: "promises_created (new_DebouncedSyncQueue ms n)"
  by (simp add: promises_created_iff new_DebouncedSyncQueue_def)

lemma fresh_unreachable:
  assumes "promises_created s"
  shows "unreachable_promise (next_promise s) (snd (enqueueDebounced op s))"
proof -
  from assms have "\<And>p. p \<in> set (map fst (settled s)) \<union> set (map fst (listeners s)) \<union>
                         set (map snd (awaiting s)) \<Longrightarrow> p < next_promise s"
    by (auto simp: promises_created_iff)
  then have "next_promise s \<notin> set (map fst (settled s)) \<union> set (map fst (listeners s)) \<union>
                         set (map snd (awaiting s))"
    by blast
  then show ?thesis
    by (simp add: unreachable_promise_def enqueueDebounced_def Let_def outcome_of_None_iff)
qed

lemma superseded_never_settles:
  assumes mid: "list_all (\<lambda>ev. \<not> is_timer_fire ev) mid"
  shows "abandoned (next_promise (debounced_run pre (new_DebouncedSyncQueue ms n)))
           (debounced_run (pre @ [EnqueueDebounced op1] @ mid @ [EnqueueDebounced op2] @ post)
              (new_DebouncedSyncQueue ms n))"
proof -
  let ?s0 = "debounced_run pre (new_DebouncedSyncQueue ms n)"
  let ?p = "next_promise ?s0"
  let ?s1 = "snd (enqueueDebounced op1 ?s0)"
  have c0: "promises_created ?s0" by (rule created_run[OF created_new])
  have u1: "unreachable_promise ?p ?s1" by (rule fresh_unreachable[OF c0])
  have u2: "unreachable_promise ?p (debounced_run mid ?s1)"
    by (rule unreachable_window_run[OF u1 mid])
  have a3: "abandoned ?p (snd (enqueueDebounced op2 (debounced_run mid ?s1)))"
    by (rule unreachable_enqueueDebounced[OF u2])
  have "abandoned ?p (debounced_run post (snd (enqueueDebounced op2 (debounced_run mid ?s1))))"
    by (rule abandoned_run[OF a3])
  then show ?thesis
    by (simp add: debounced_run_append debounced_run_def)
qed

lemma outcome_of_stable:
  "outcome_of q s = Some out \<Longrightarrow> outcome_of q (s\<lparr>settled := settled s @ xs\<rparr>) = Some out"
  by (simp add: outcome_of_append)

lemma resume_each_grows:
  "set (settled s) \<subseteq> set (settled (resume_each ws s)) \<and>
   (pendingOperation s = None \<longrightarrow> pendingOperation (resume_each ws s) = None)"
proof (induction ws s rule: resume_each.induct)
  case (1 s)
  then show ?case by simp
next
  case (2 q p ws s)
  show ?case
  proof (cases "outcome_of q s")
    case None
    with 2 show ?thesis by simp
  next
    case (Some out)
    with 2 show ?thesis by auto
  qed
qed

lemma resume_each_settles:
  "(q, p) \<in> set ws \<Longrightarrow> outcome_of q s = Some out \<Longrightarrow>
   (p, out) \<in> set (settled (resume_each ws s)) \<and> pendingOperation (resume_each ws s) = None"
proof (induction ws s rule: resume_each.induct)
  case (1 s)
  then show ?case by simp
next
  case (2 q' p' ws s)
  show ?case
  proof (cases "outcome_of q' s")
    case None
    with "2.prems" have "(q, p) \<in> set ws" by auto
    with 2 None show ?thesis by simp
  next
    case (Some out')
    let ?s' = "s\<lparr>settled := settled s @ [(p', out')], pendingOperation := None,
                 awaiting := removeAll (q', p') (awaiting s)\<rparr>"
    have r: "resume_each ((q', p') # ws) s = resume_each ws ?s'"
      using Some by simp
    show ?thesis
    proof (cases "(q, p) = (q', p')")
      case True
      with Some "2.prems" have "out' = out" by simp
      with True have "(p, out) \<in> set (settled ?s')" "pendingOperation ?s' = None" by simp_all
      with resume_each_grows[of ?s' ws] r show ?thesis by auto
    next
      case False
      with "2.prems" have m: "(q, p) \<in> set ws" by auto
      from "2.prems"(2) have "outcome_of q ?s' = Some out"
        by (simp add: outcome_of_def map_add_def)
      with "2.IH"(2)[OF Some m] r show ?thesis by simp
    qed
  qed
qed

lemma resume_each_keeps:
  "outcome_of q s = None \<Longrightarrow> q \<notin> set (map snd ws) \<Longrightarrow> (q, p) \<in> set (awaiting s) \<Longrightarrow>
   (q, p) \<in> set (awaiting (resume_each ws s)) \<and> outcome_of q (resume_each ws s) = None"
proof (induction ws s rule: resume_each.induct)
  case (1 s)
  then show ?case by simp
next
  case (2 q' p' ws s)
  show ?case
  proof (cases "outcome_of q' s")
    case None
    with 2 show ?thesis by simp
  next
    case (Some out')
    let ?s' = "s\<lparr>settled := settled s @ [(p', out')], pendingOperation := None,
                 awaiting := removeAll (q', p') (awaiting s)\<rparr>"
    from Some "2.prems"(1) have ne: "q' \<noteq> q" by auto
    from "2.prems"(2) have ne': "p' \<noteq> q" by auto
    have a: "outcome_of q ?s' = None"
      using "2.prems"(1) ne' by (simp add: outcome_of_def map_add_def)
    have b: "(q, p) \<in> set (awaiting ?s')"
      using "2.prems"(3) ne by simp
    have c: "q \<notin> set (map snd ws)" using "2.prems"(2) by simp
    from "2.IH"(2)[OF Some a c b] Some show ?thesis by simp
  qed
qed

lemma map_of_const:
  "q \<in> fst ` set xs \<Longrightarrow> map_of (map (\<lambda>(p, j). (p, v)) xs) q = Some v"
  by (induction xs) auto

lemma finish_emits:
  assumes "emits (Finish k outcome) s = Some i"
  shows "settled (finish k outcome s) =
           settled s @ map (\<lambda>(p, j). (p, settlement_of outcome))
                           (filter (\<lambda>(p, j). j = i) (listeners s))"
  using assms
  by (cases outcome)
     (auto simp: finish_def Let_def drain_def clear_def emit_settle_def
           split: if_splits list.splits)

lemma timer_fires_duplicate:
  assumes c: "promises_created s"
    and t: "debounceTimer s = Some p" and po: "pendingOperation s = Some op"
    and d: "''debounced-sync'' \<in> set (queued_ids s)"
  shows "(p, Rejected (duplicate_error ''debounced-sync'')) \<in> set (settled (timer_fires now rnd s)) \<and>
         queue (timer_fires now rnd s) = queue s \<and> inflight (timer_fires now rnd s) = inflight s \<and>
         listeners (timer_fires now rnd s) = listeners s \<and>
         pendingOperation (timer_fires now rnd s) = None \<and>
         debounceTimer (timer_fires now rnd s) = None"
proof -
  let ?q = "next_promise s"
  let ?s0 = "s\<lparr>debounceTimer := None\<rparr>"
  let ?s1 = "?s0\<lparr>next_promise := Suc ?q,
               settled := settled ?s0 @ [(?q, Rejected (duplicate_error ''debounced-sync''))]\<rparr>"
  let ?s2 = "?s1\<lparr>awaiting := awaiting ?s1 @ [(?q, p)]\<rparr>"
  have e: "enqueue op 0 (Some ''debounced-sync'') now rnd ?s0 = (?q, ?s1)"
    using enqueue_duplicate[of "''debounced-sync''" ?s0 op 0 now rnd] d
    by (simp add: queued_ids_def)
  have tf: "timer_fires now rnd s = resume ?s2"
    using t po e by (simp add: timer_fires_def Let_def)
  from c have "?q \<notin> set (map fst (settled s))"
    by (auto simp: promises_created_iff)
  then have "map_of (settled s) ?q = None"
    by (simp add: map_of_eq_None_iff)
  then have o: "outcome_of ?q ?s2 = Some (Rejected (duplicate_error ''debounced-sync''))"
    by (simp add: outcome_of_def map_add_def)
  have "(p, Rejected (duplicate_error ''debounced-sync'')) \<in> set (settled (resume_each (awaiting ?s2) ?s2)) \<and>
        pendingOperation (resume_each (awaiting ?s2) ?s2) = None"
    by (rule resume_each_settles[OF _ o]) simp
  then show ?thesis
    unfolding tf resume_def by (simp add: resume_each_base)
qed

lemma timer_fires_accepted:
  assumes c: "promises_created s"
    and t: "debounceTimer s = Some p" and po: "pendingOperation s = Some op"
    and d: "''debounced-sync'' \<notin> set (queued_ids s)"
  shows "(next_promise s, p) \<in> set (awaiting (timer_fires now rnd s)) \<and>
         waits_for (next_promise s) ''debounced-sync'' (timer_fires now rnd s) \<and>
         set (queue (timer_fires now rnd s) @ inflight (timer_fires now rnd s)) =
           insert \<lparr>item_id = ''debounced-sync'', item_operation = op, priority = 0,
                   timestamp = now, retries = 0\<rparr> (set (queue s @ inflight s)) \<and>
         debounceTimer (timer_fires now rnd s) = None"
proof -
  let ?q = "next_promise s"
  let ?s0 = "s\<lparr>debounceTimer := None\<rparr>"
  from enqueue_accepted[of "''debounced-sync''" ?s0 op 0 now rnd] d
  obtain s1 where e: "enqueue op 0 (Some ''debounced-sync'') now rnd ?s0 = (?q, s1)"
    and s1: "settled s1 = settled s" "listeners s1 = listeners s @ [(?q, ''debounced-sync'')]"
      "next_promise s1 = Suc ?q"
      "set (queue s1 @ inflight s1) =
         insert \<lparr>item_id = ''debounced-sync'', item_operation = op, priority = 0,
                 timestamp = now, retries = 0\<rparr> (set (queue s @ inflight s))"
    by (auto simp: queued_ids_def)
  have ext: "awaiting s1 = awaiting s" "debounceTimer s1 = None"
    using queue_step_extension[of "Enqueue op 0 (Some ''debounced-sync'') now rnd" ?s0] e
    by simp_all
  let ?s2 = "s1\<lparr>awaiting := awaiting s1 @ [(?q, p)]\<rparr>"
  have tf: "timer_fires now rnd s = resume ?s2"
    using t po e by (simp add: timer_fires_def Let_def)
  from c t have fresh: "?q \<notin> set (map fst (settled s))" "?q \<notin> set (map fst (listeners s))"
      "?q \<notin> set (map snd (awaiting s))" "p < ?q"
    by (auto simp: promises_created_iff)
  have o: "outcome_of ?q ?s2 = None"
    using fresh(1) s1(1) by (simp add: outcome_of_None_iff)
  have n: "?q \<notin> set (map snd (awaiting ?s2))"
    using fresh(3,4) ext(1) by auto
  have k: "(?q, p) \<in> set (awaiting (resume_each (awaiting ?s2) ?s2)) \<and>
           outcome_of ?q (resume_each (awaiting ?s2) ?s2) = None"
    by (rule resume_each_keeps[OF o n]) simp
  have fl: "filter (\<lambda>(p', j). p' = ?q) (listeners s) = []"
    using fresh(2) by (force simp: filter_empty_conv)
  have w: "waits_for ?q ''debounced-sync'' (resume ?s2)"
    using k s1(2,3) fl
    by (simp add: waits_for_def resume_def resume_each_base)
  show ?thesis
    unfolding tf using k w s1(4) ext(2)
    by (simp add: resume_def resume_each_base)
qed

lemma finish_forwards:
  fixes s :: "('op, 'r) DebouncedSyncQueue"
  assumes a: "(q, p) \<in> set (awaiting s)" and w: "waits_for q i s"
    and e: "emits (Finish k outcome) s = Some i"
  shows "(p, settlement_of outcome) \<in> set (settled (debounced_step (Base (Finish k outcome)) s)) \<and>
         pendingOperation (debounced_step (Base (Finish k outcome)) s) = None"
proof -
  let ?s1 = "finish k outcome s"
  from w have "q \<in> fst ` set (filter (\<lambda>(p, j). j = i) (listeners s))"
    by (force simp: waits_for_def)
  then have m: "map_of (map (\<lambda>(p, j). (p, settlement_of outcome))
                    (filter (\<lambda>(p, j). j = i) (listeners s))) q = Some (settlement_of outcome)"
    by (rule map_of_const)
  from w have "map_of (settled s) q = None" by (simp add: waits_for_def outcome_of_def)
  with m have o: "outcome_of q ?s1 = Some (settlement_of outcome)"
    by (simp add: outcome_of_def finish_emits[OF e] map_add_def)
  have aw: "awaiting ?s1 = awaiting s"
    using queue_step_extension[of "Finish k outcome" s] by simp
  have "(p, settlement_of outcome) \<in> set (settled (resume_each (awaiting ?s1) ?s1)) \<and>
        pendingOperation (resume_each (awaiting ?s1) ?s1) = None"
    by (rule resume_each_settles[OF _ o]) (simp add: aw a)
  then show ?thesis by (simp add: resume_def)
qed

text \<open>
  Claim C10, as stated, fails in its second half. The handlers of the inner \<^verbatim>\<open>enqueue\<close>
  compare the reserved id only, and the duplicate check rejects the reserved id while an
  earlier debounced operation waits. In the first run below, operation 1 is in flight when
  the calls with operations 2 and 3 fall into one window; the timer queues operation 3,
  and the completion of operation 1 (result 100) resolves the promise of the last call
  with 100 before operation 3 has run. In the second run, operation 2 waits in the queue
  when the calls with operations 3 and 4 fall into one window; the promise of the last
  call is rejected with the duplicate error and operation 4 never reaches the queue.
\<close>

theorem last_promise_settled_otherwise:
  "(let s = debounced_run
              [EnqueueDebounced (1::nat), TimerFires 1 ''r'', EnqueueDebounced 2,
               EnqueueDebounced 3, TimerFires 2 ''r'', Base (Finish 0 (Inr 100))]
              (new_DebouncedSyncQueue 5000 3 :: (nat, nat) DebouncedSyncQueue)
    in outcome_of 3 s = Some (Resolved 100) \<and> outcome_of 2 s = None \<and>
       map item_operation (inflight s) = [3] \<and> pendingOperation s = None) \<and>
   (let s = debounced_run
              [EnqueueDebounced (1::nat), TimerFires 1 ''r'', EnqueueDebounced 2,
               TimerFires 2 ''r'', EnqueueDebounced 3, EnqueueDebounced 4, TimerFires 3 ''r'']
              (new_DebouncedSyncQueue 5000 3 :: (nat, nat) DebouncedSyncQueue)
    in outcome_of 5 s = Some (Rejected (duplicate_error ''debounced-sync'')) \<and>
       outcome_of 4 s = None \<and>
       map item_operation (inflight s) = [1] \<and> map item_operation (queue s) = [2] \<and>
       pendingOperation s = None)"
  by code_simp

text \<open>
  Claim C10, amended. In every run of a debounced queue from its construction, the promise
  returned by an \<^verbatim>\<open>enqueueDebounced\<close> call that is followed by another such call before the
  timer fires is never resolved and never rejected. In every state reached from the
  construction in which the timer is armed for the promise \<open>p\<close> of the last call and a
  pending operation is recorded, the firing of the timer makes one \<^verbatim>\<open>enqueue\<close> call under
  the reserved id \<^verbatim>\<open>debounced-sync\<close>: when an operation with this id waits in the queue, \<open>p\<close>
  is rejected with the duplicate error, the queue is unchanged and the pending operation is
  dropped; otherwise the pending operation joins the queue (or starts) and \<open>p\<close> waits for
  the promise of that \<^verbatim>\<open>enqueue\<close>, whose handlers listen for the reserved id. A promise \<open>p\<close>
  that waits for an inner promise listening for an id is settled, with what the event
  carries, by the next completion or terminal failure emitted for that id, and the pending
  operation is then reset.
\<close>

theorem debounced_promises:
  fixes s :: "('op, 'r) DebouncedSyncQueue"
  shows
  "(list_all (\<lambda>ev. \<not> is_timer_fire ev) mid \<longrightarrow>
      outcome_of (fst (enqueueDebounced op1 (debounced_run pre (new_DebouncedSyncQueue ms n))))
        (debounced_run (pre @ [EnqueueDebounced op1] @ mid @ [EnqueueDebounced op2] @ post)
           (new_DebouncedSyncQueue ms n :: ('op, 'r) DebouncedSyncQueue)) = None)
   \<and>
   (s = debounced_run pre (new_DebouncedSyncQueue ms n) \<and>
    debounceTimer s = Some p \<and> pendingOperation s = Some op \<longrightarrow>
      (''debounced-sync'' \<in> set (queued_ids s) \<longrightarrow>
         (p, Rejected (duplicate_error ''debounced-sync'')) \<in> set (settled (timer_fires now rnd s)) \<and>
         queue (timer_fires now rnd s) = queue s \<and> inflight (timer_fires now rnd s) = inflight s \<and>
         listeners (timer_fires now rnd s) = listeners s \<and>
         pendingOperation (timer_fires now rnd s) = None) \<and>
      (''debounced-sync'' \<notin> set (queued_ids s) \<longrightarrow>
         (next_promise s, p) \<in> set (awaiting (timer_fires now rnd s)) \<and>
         waits_for (next_promise s) ''debounced-sync'' (timer_fires now rnd s) \<and>
         set (queue (timer_fires now rnd s) @ inflight (timer_fires now rnd s)) =
           insert \<lparr>item_id = ''debounced-sync'', item_operation = op, priority = 0,
                   timestamp = now, retries = 0\<rparr> (set (queue s @ inflight s))))
   \<and>
   ((q, p) \<in> set (awaiting s) \<and> waits_for q i s \<and> emits (Finish k outcome) s = Some i \<longrightarrow>
      (p, settlement_of outcome) \<in> set (settled (debounced_step (Base (Finish k outcome)) s)) \<and>
      pendingOperation (debounced_step (Base (Finish k outcome)) s) = None)"
proof -
  have A: "list_all (\<lambda>ev. \<not> is_timer_fire ev) mid \<longrightarrow>
      outcome_of (fst (enqueueDebounced op1 (debounced_run pre (new_DebouncedSyncQueue ms n))))
        (debounced_run (pre @ [EnqueueDebounced op1] @ mid @ [EnqueueDebounced op2] @ post)
           (new_DebouncedSyncQueue ms n :: ('op, 'r) DebouncedSyncQueue)) = None"
  proof
    assume "list_all (\<lambda>ev. \<not> is_timer_fire ev) mid"
    then have "abandoned (next_promise (debounced_run pre (new_DebouncedSyncQueue ms n)))
           (debounced_run (pre @ [EnqueueDebounced op1] @ mid @ [EnqueueDebounced op2] @ post)
              (new_DebouncedSyncQueue ms n :: ('op, 'r) DebouncedSyncQueue))"
      by (rule superseded_never_settles)
    then show "outcome_of (fst (enqueueDebounced op1 (debounced_run pre (new_DebouncedSyncQueue ms n))))
        (debounced_run (pre @ [EnqueueDebounced op1] @ mid @ [EnqueueDebounced op2] @ post)
           (new_DebouncedSyncQueue ms n :: ('op, 'r) DebouncedSyncQueue)) = None"
      by (simp add: abandoned_def unreachable_promise_def enqueueDebounced_def Let_def)
  qed
  have B: "s = debounced_run pre (new_DebouncedSyncQueue ms n) \<and>
    debounceTimer s = Some p \<and> pendingOperation s = Some op \<longrightarrow>
      (''debounced-sync'' \<in> set (queued_ids s) \<longrightarrow>
         (p, Rejected (duplicate_error ''debounced-sync'')) \<in> set (settled (timer_fires now rnd s)) \<and>
         queue (timer_fires now rnd s) = queue s \<and> inflight (timer_fires now rnd s) = inflight s \<and>
         listeners (timer_fires now rnd s) = listeners s \<and>
         pendingOperation (timer_fires now rnd s) = None) \<and>
      (''debounced-sync'' \<notin> set (queued_ids s) \<longrightarrow>
         (next_promise s, p) \<in> set (awaiting (timer_fires now rnd s)) \<and>
         waits_for (next_promise s) ''debounced-sync'' (timer_fires now rnd s) \<and>
         set (queue (timer_fires now rnd s) @ inflight (timer_fires now rnd s)) =
           insert \<lparr>item_id = ''debounced-sync'', item_operation = op, priority = 0,
                   timestamp = now, retries = 0\<rparr> (set (queue s @ inflight s)))"
  proof
    assume a: "s = debounced_run pre (new_DebouncedSyncQueue ms n) \<and>
      debounceTimer s = Some p \<and> pendingOperation s = Some op"
    then have "s = debounced_run pre (new_DebouncedSyncQueue ms n)" by blast
    then have c: "promises_created s" by (simp add: created_run[OF created_new])
    from a have t: "debounceTimer s = Some p" and po: "pendingOperation s = Some op" by blast+
    from timer_fires_duplicate[OF c t po, of now rnd] timer_fires_accepted[OF c t po, of now rnd]
    show "(''debounced-sync'' \<in> set (queued_ids s) \<longrightarrow>
         (p, Rejected (duplicate_error ''debounced-sync'')) \<in> set (settled (timer_fires now rnd s)) \<and>
         queue (timer_fires now rnd s) = queue s \<and> inflight (timer_fires now rnd s) = inflight s \<and>
         listeners (timer_fires now rnd s) = listeners s \<and>
         pendingOperation (timer_fires now rnd s) = None) \<and>
      (''debounced-sync'' \<notin> set (queued_ids s) \<longrightarrow>
         (next_promise s, p) \<in> set (awaiting (timer_fires now rnd s)) \<and>
         waits_for (next_promise s) ''debounced-sync'' (timer_fires now rnd s) \<and>
         set (queue (timer_fires now rnd s) @ inflight (timer_fires now rnd s)) =
           insert \<lparr>item_id = ''debounced-sync'', item_operation = op, priority = 0,
                   timestamp = now, retries = 0\<rparr> (set (queue s @ inflight s)))"
      by blast
  qed
  have C: "(q, p) \<in> set (awaiting s) \<and> waits_for q i s \<and> emits (Finish k outcome) s = Some i \<longrightarrow>
      (p, settlement_of outcome) \<in> set (settled (debounced_step (Base (Finish k outcome)) s)) \<and>
      pendingOperation (debounced_step (Base (Finish k outcome)) s) = None"
    using finish_forwards[of q p s i k outcome] by blast
  from A B C show ?thesis by blast
qed

theorem debounced_promises_witness:
  "(let init = (new_DebouncedSyncQueue 5000 3 :: (nat, nat) DebouncedSyncQueue);
        s1 = debounced_run [EnqueueDebounced 1] init;
        s2 = debounced_run [EnqueueDebounced 1, TimerFires 1 ''r''] init;
        s3 = debounced_run [EnqueueDebounced 1, TimerFires 1 ''r'', EnqueueDebounced 2,
                            TimerFires 2 ''r'', EnqueueDebounced 3] init
    in outcome_of 0 (debounced_run ([] @ [EnqueueDebounced 1] @ [Base Wake] @ [EnqueueDebounced 2] @
                       [TimerFires 1 ''r'', Base (Finish 0 (Inr 7))]) init) = None \<and>
       (4, Rejected (duplicate_error ''debounced-sync'')) \<in> set (settled (timer_fires 3 ''r'' s3)) \<and>
       queue (timer_fires 3 ''r'' s3) = queue s3 \<and>
       (1, 0) \<in> set (awaiting (timer_fires 1 ''r'' s1)) \<and>
       waits_for 1 ''debounced-sync'' (timer_fires 1 ''r'' s1) \<and>
       (0, Resolved 7) \<in> set (settled (debounced_step (Base (Finish 0 (Inr 7))) s2)))"
proof -
  let ?init = "new_DebouncedSyncQueue 5000 3 :: (nat, nat) DebouncedSyncQueue"
  define s1 where "s1 = debounced_run [EnqueueDebounced 1] ?init"
  define s2 where "s2 = debounced_run [EnqueueDebounced 1, TimerFires 1 ''r''] ?init"
  define s3 where "s3 = debounced_run [EnqueueDebounced 1, TimerFires 1 ''r'', EnqueueDebounced 2,
                            TimerFires 2 ''r'', EnqueueDebounced 3] ?init"
  have mid: "list_all (\<lambda>ev. \<not> is_timer_fire ev) [Base Wake :: (nat, nat) debounced_event]"
    by simp
  have p0: "fst (enqueueDebounced 1 (debounced_run [] ?init)) = 0"
    by code_simp
  have e1: "debounceTimer s1 = Some 0" "pendingOperation s1 = Some 1"
           "''debounced-sync'' \<notin> set (queued_ids s1)" "next_promise s1 = 1"
    unfolding s1_def by code_simp+
  have e3: "debounceTimer s3 = Some 4" "pendingOperation s3 = Some 3"
           "''debounced-sync'' \<in> set (queued_ids s3)"
    unfolding s3_def by code_simp+
  have e2: "(1, 0) \<in> set (awaiting s2)" "waits_for 1 ''debounced-sync'' s2"
           "emits (Finish 0 (Inr 7)) s2 = Some ''debounced-sync''"
    unfolding s2_def by code_simp+
  note A = debounced_promises[where mid = "[Base Wake]" and pre = "[]" and ms = 5000 and n = 3
      and ?op1.0 = 1 and ?op2.0 = 2 and post = "[TimerFires 1 ''r'', Base (Finish 0 (Inr 7))]"]
  note B = debounced_promises[where pre = "[EnqueueDebounced 1, TimerFires 1 ''r'', EnqueueDebounced 2,
      TimerFires 2 ''r'', EnqueueDebounced 3]" and ms = 5000 and n = 3 and s = s3 and p = 4
      and op = 3 and now = 3 and rnd = "''r''"]
  note C = debounced_promises[where pre = "[EnqueueDebounced 1]" and ms = 5000 and n = 3
      and s = s1 and p = 0 and op = 1 and now = 1 and rnd = "''r''"]
  note D = debounced_promises[where s = s2 and q = 1 and p = 0 and i = "''debounced-sync''"
      and k = 0 and outcome = "Inr 7"]
  have a: "outcome_of 0 (debounced_run ([] @ [EnqueueDebounced 1] @ [Base Wake] @ [EnqueueDebounced 2] @
                       [TimerFires 1 ''r'', Base (Finish 0 (Inr 7))]) ?init) = None"
    using A[THEN conjunct1, rule_format, OF mid] by (simp only: p0)
  have hb: "s3 = debounced_run [EnqueueDebounced 1, TimerFires 1 ''r'', EnqueueDebounced 2,
      TimerFires 2 ''r'', EnqueueDebounced 3] ?init \<and> debounceTimer s3 = Some 4 \<and>
      pendingOperation s3 = Some 3"
    using e3 s3_def by simp
  have b: "(4, Rejected (duplicate_error ''debounced-sync'')) \<in> set (settled (timer_fires 3 ''r'' s3)) \<and>
       queue (timer_fires 3 ''r'' s3) = queue s3"
    using B[THEN conjunct2, THEN conjunct1, rule_format, OF hb, THEN conjunct1, rule_format, OF e3(3)]
    by blast
  have hc: "s1 = debounced_run [EnqueueDebounced 1] ?init \<and> debounceTimer s1 = Some 0 \<and>
      pendingOperation s1 = Some 1"
    using e1 s1_def by simp
  have c: "(1, 0) \<in> set (awaiting (timer_fires 1 ''r'' s1)) \<and>
       waits_for 1 ''debounced-sync'' (timer_fires 1 ''r'' s1)"
    using C[THEN conjunct2, THEN conjunct1, rule_format, OF hc, THEN conjunct2, rule_format, OF e1(3)]
    by (simp add: e1(4))
  have hd: "(1, 0) \<in> set (awaiting s2) \<and> waits_for 1 ''debounced-sync'' s2 \<and>
      emits (Finish 0 (Inr 7)) s2 = Some ''debounced-sync''"
    using e2 by blast
  have d: "(0, Resolved 7) \<in> set (settled (debounced_step (Base (Finish 0 (Inr 7))) s2))"
    using D[THEN conjunct2, THEN conjunct2, rule_format, OF hd] by simp
  from a b c d show ?thesis
    unfolding Let_def s1_def[symmetric] s2_def[symmetric] s3_def[symmetric]
    by blast
qed

section \<open>pull and the stash\<close>

text \<open>
  Claim C6, as stated, fails. In this world the working tree has a changed file, every pull
  fails for the network and every stash pop reports a conflict. \<^verbatim>\<open>pull\<close> runs its operation
  under the retry manager: four attempts, so four stash pushes and four stash pops are
  issued in one run of \<^verbatim>\<open>pull\<close>, and the error raised is the retryable network error of the
  pull, not a merge-conflict error for the failed pops.
\<close>

theorem pull_retries_stash_and_hides_pop_conflict:
  "fst (pull example_options offline_conflict_world [])
     = Inl (GitSyncError NETWORK_ERROR ''Network error occurred while syncing.'' True) \<and>
   length (filter (\<lambda>c. c = StashPush ''Git sync: temporary stash for pull'')
             (fst (snd (pull example_options offline_conflict_world [])))) = 4 \<and>
   length (filter (\<lambda>c. c = StashPop)
             (fst (snd (pull example_options offline_conflict_world [])))) = 4 \<and>
   fst (pull_operation example_options offline_conflict_world [])
     = Inl (PlainError (Some ''fatal: Could not resolve host: github.com''))"
  by code_simp

lemmas pull_defs = pull_operation_def and_then_def catch_def git_status_def git_command_def
  ret_def throw_def pop_failed_def Let_def

text \<open>
  Claim C6, amended: one attempt of the operation that \<^verbatim>\<open>pull\<close> runs under the retry
  manager, from any history \<open>tr\<close> of earlier calls. With no uncommitted change, the calls
  are the status and the pull: no stash push and no stash pop. With uncommitted changes
  and a stash push that succeeds, exactly one stash push is issued; when the pull fails,
  exactly one stash pop is attempted after it and, whatever the pop answers, the error of
  the pull is raised (as a non-recoverable merge-conflict error when its message contains
  \<^verbatim>\<open>merge conflict\<close>); when the pull succeeds and the pop succeeds or fails with
  \<^verbatim>\<open>No stash entries found\<close>, exactly one pop is attempted and the attempt succeeds; when
  the pull succeeds and the pop fails with another message that contains \<^verbatim>\<open>conflict\<close>, the
  non-recoverable merge-conflict error is raised.
\<close>

theorem pull_operation_stash:
  "(on_status E tr = Inr [] \<longrightarrow>
      snd (pull_operation opts E tr) =
        tr @ [Status, RawPull ([''pull'', ''origin'', branch opts] @ pull_options (conflictResolution opts))])
   \<and>
   (on_status E tr = Inr files \<and> files \<noteq> [] \<and>
    on_command E (tr @ [Status]) (StashPush ''Git sync: temporary stash for pull'') = None \<longrightarrow>
      (let pull_call = RawPull ([''pull'', ''origin'', branch opts] @ pull_options (conflictResolution opts));
           tr2 = tr @ [Status, StashPush ''Git sync: temporary stash for pull''];
           tr3 = tr2 @ [pull_call]
       in
         (on_command E tr2 pull_call = Some e \<longrightarrow>
            pull_operation opts E tr =
              (Inl (if messageIncludes e ''merge conflict''
                    then GitOperationError GIT_MERGE_CONFLICT
                           ''Merge conflict during pull operation'' False
                    else e),
               tr3 @ [StashPop])) \<and>
         (on_command E tr2 pull_call = None \<and>
          (on_command E tr3 StashPop = None \<or>
           (\<exists>pe. on_command E tr3 StashPop = Some pe \<and>
                 messageIncludes pe ''No stash entries found'')) \<longrightarrow>
            pull_operation opts E tr = (Inr (), tr3 @ [StashPop])) \<and>
         (on_command E tr2 pull_call = None \<and> on_command E tr3 StashPop = Some pe \<and>
          \<not> messageIncludes pe ''No stash entries found'' \<and> messageIncludes pe ''conflict'' \<longrightarrow>
            fst (pull_operation opts E tr) =
              Inl (GitOperationError GIT_MERGE_CONFLICT
                     ''Conflict when applying local changes after pull'' False))))"
proof -
  have mc: "\<not> messageIncludes (GitOperationError GIT_MERGE_CONFLICT
                 ''Conflict when applying local changes after pull'' False) ''merge conflict''"
    by code_simp
  have A: "on_status E tr = Inr [] \<longrightarrow>
      snd (pull_operation opts E tr) =
        tr @ [Status, RawPull ([''pull'', ''origin'', branch opts] @ pull_options (conflictResolution opts))]"
    by (auto simp: pull_defs split: option.splits)
  have B: "on_status E tr = Inr files \<and> files \<noteq> [] \<and>
    on_command E (tr @ [Status]) (StashPush ''Git sync: temporary stash for pull'') = None \<longrightarrow>
      (let pull_call = RawPull ([''pull'', ''origin'', branch opts] @ pull_options (conflictResolution opts));
           tr2 = tr @ [Status, StashPush ''Git sync: temporary stash for pull''];
           tr3 = tr2 @ [pull_call]
       in
         (on_command E tr2 pull_call = Some e \<longrightarrow>
            pull_operation opts E tr =
              (Inl (if messageIncludes e ''merge conflict''
                    then GitOperationError GIT_MERGE_CONFLICT
                           ''Merge conflict during pull operation'' False
                    else e),
               tr3 @ [StashPop])) \<and>
         (on_command E tr2 pull_call = None \<and>
          (on_command E tr3 StashPop = None \<or>
           (\<exists>pe. on_command E tr3 StashPop = Some pe \<and>
                 messageIncludes pe ''No stash entries found'')) \<longrightarrow>
            pull_operation opts E tr = (Inr (), tr3 @ [StashPop])) \<and>
         (on_command E tr2 pull_call = None \<and> on_command E tr3 StashPop = Some pe \<and>
          \<not> messageIncludes pe ''No stash entries found'' \<and> messageIncludes pe ''conflict'' \<longrightarrow>
            fst (pull_operation opts E tr) =
              Inl (GitOperationError GIT_MERGE_CONFLICT
                     ''Conflict when applying local changes after pull'' False)))"
    using mc by (auto simp: pull_defs split: option.splits)
  from A B show ?thesis by blast
qed

text \<open>When the pull succeeds and the pop fails with a conflict, the handler of the outer
  \<^verbatim>\<open>try\<close> catches the merge-conflict error too and pops a second time.\<close>

lemma pull_operation_pops_twice:
  "snd (pull_operation example_options
          (offline_conflict_world\<lparr>on_command := (\<lambda>h c. case c of
              StashPop \<Rightarrow> Some (PlainError (Some ''error: conflict in guide.md''))
            | _ \<Rightarrow> None)\<rparr>) [])
     = [Status, StashPush ''Git sync: temporary stash for pull'',
        RawPull [''pull'', ''origin'', ''main'', ''--rebase=true'', ''--strategy-option=ours''],
        StashPop, StashPop]"
  by code_simp

theorem pull_operation_stash_witness:
  "(let clean = tracked_placeholder_world\<lparr>on_status := (\<lambda>h. Inr [])\<rparr>;
        pop_conflict = offline_conflict_world\<lparr>on_command := (\<lambda>h c. case c of
              StashPop \<Rightarrow> Some (PlainError (Some ''error: conflict in guide.md''))
            | _ \<Rightarrow> None)\<rparr>;
        pull_call = RawPull [''pull'', ''origin'', ''main'', ''--rebase=true'', ''--strategy-option=ours'']
    in snd (pull_operation example_options clean []) = [Status, pull_call] \<and>
       pull_operation example_options offline_conflict_world [] =
         (Inl (PlainError (Some ''fatal: Could not resolve host: github.com'')),
          [Status, StashPush ''Git sync: temporary stash for pull'', pull_call, StashPop]) \<and>
       pull_operation example_options tracked_placeholder_world [] =
         (Inr (), [Status, StashPush ''Git sync: temporary stash for pull'', pull_call, StashPop]) \<and>
       fst (pull_operation example_options pop_conflict []) =
         Inl (GitOperationError GIT_MERGE_CONFLICT
                ''Conflict when applying local changes after pull'' False))"
proof -
  define clean where "clean = tracked_placeholder_world\<lparr>on_status := (\<lambda>h. Inr [])\<rparr>"
  define pop_conflict where "pop_conflict = offline_conflict_world\<lparr>on_command := (\<lambda>h c. case c of
              StashPop \<Rightarrow> Some (PlainError (Some ''error: conflict in guide.md''))
            | _ \<Rightarrow> None)\<rparr>"
  let ?pull = "RawPull [''pull'', ''origin'', ''main'', ''--rebase=true'', ''--strategy-option=ours'']"
  let ?push = "StashPush ''Git sync: temporary stash for pull''"
  have args: "RawPull ([''pull'', ''origin'', branch example_options] @
                 pull_options (conflictResolution example_options)) = ?pull"
    by (simp add: example_options_def pull_options_def)
  have m1: "\<not> messageIncludes (PlainError (Some ''fatal: Could not resolve host: github.com''))
                ''merge conflict''"
    by code_simp
  have m2: "\<not> messageIncludes (PlainError (Some ''error: conflict in guide.md''))
                ''No stash entries found''"
           "messageIncludes (PlainError (Some ''error: conflict in guide.md'')) ''conflict''"
    by code_simp+
  have w1: "snd (pull_operation example_options clean []) = [Status, ?pull]"
    using pull_operation_stash[where E = clean and tr = "[]" and opts = example_options,
            THEN conjunct1, unfolded args]
    by (simp add: clean_def)
  note T = pull_operation_stash[where tr = "[]" and opts = example_options,
             THEN conjunct2, unfolded Let_def args, rule_format]
  have w2: "pull_operation example_options offline_conflict_world [] =
         (Inl (PlainError (Some ''fatal: Could not resolve host: github.com'')),
          [Status, ?push, ?pull, StashPop])"
    using T[where E = offline_conflict_world and files = "[''guide.md'']"
              and e = "PlainError (Some ''fatal: Could not resolve host: github.com'')",
            THEN conjunct1] m1
    by (simp add: offline_conflict_world_def)
  have w3: "pull_operation example_options tracked_placeholder_world [] =
         (Inr (), [Status, ?push, ?pull, StashPop])"
    using T[where E = tracked_placeholder_world and files = "[''notes.txt'']",
            THEN conjunct2, THEN conjunct1]
    by (simp add: tracked_placeholder_world_def)
  have w4: "fst (pull_operation example_options pop_conflict []) =
         Inl (GitOperationError GIT_MERGE_CONFLICT
                ''Conflict when applying local changes after pull'' False)"
    using T[where E = pop_conflict and files = "[''guide.md'']"
              and pe = "PlainError (Some ''error: conflict in guide.md'')",
            THEN conjunct2, THEN conjunct2] m2
    by (simp add: pop_conflict_def offline_conflict_world_def)
  from w1 w2 w3 w4 show ?thesis
    unfolding Let_def clean_def[symmetric] pop_conflict_def[symmetric] by blast
qed

section \<open>Placeholders and syncBidirectional\<close>

text \<open>
  Claim C7 against the code. The tracked, unchanged file \<^verbatim>\<open>intro.md\<close> contains the
  placeholder marker and \<^verbatim>\<open>hasAnyPlaceholderFiles\<close> finds it (the warning "Will proceed
  with pull but skip any commits" is logged); the working tree has one other changed
  file. \<^verbatim>\<open>syncBidirectional\<close> returns without an error, and it has committed and pushed:
  the result of the check of step 1 is never read again, and the check before the commit
  looks at the changed files only.
\<close>

theorem sync_commits_despite_tracked_placeholder:
  "fst (hasAnyPlaceholderFiles tracked_placeholder_world [HasPlaceholders]) = Inr True \<and>
   syncBidirectional example_options tracked_placeholder_world [] =
     (Inr (),
      [HasPlaceholders, Status, LsFiles, ExistsSync ''intro.md'', ReadFileSync ''intro.md'',
       Fetch ''origin'' ''main'', Status, StashPush ''Git sync: temporary stash'',
       RevParse ''HEAD'', RevParse ''origin/main'', StashPop, Status, AddAll,
       Commit ''docs: sync content'', PushSetUpstream ''origin'' ''main''])"
  by code_simp

text \<open>The part of claim C7 that the code keeps: when the check before the commit finds the
  marker in a changed file, nothing is staged or committed, and the step reports that
  there is nothing to push.\<close>

lemma commit_unless_placeholder_skips:
  "hasPlaceholderFiles E files tr = (Inr True, tr') \<Longrightarrow>
   commit_unless_placeholder opts E files tr = (Inr False, tr')"
  by (simp add: commit_unless_placeholder_def and_then_def ret_def)

section \<open>The webhook ingest path\<close>





text \<open>
  Claim C9. When the number of stored events equals \<open>maxQueueSize\<close>, \<^verbatim>\<open>enqueue\<close> returns
  \<^verbatim>\<open>null\<close> and leaves the queue as it was: no event is evicted or replaced. When the
  handler of the ingest path, for a request that has passed the signature check and the
  filters, gets this \<^verbatim>\<open>null\<close> from the queue, it answers 503 with the header
  \<^verbatim>\<open>Retry-After: 60\<close>, the queue is unchanged and no sync is scheduled.
\<close>

theorem queue_at_capacity:
  "(length (wq_queue q) = maxQueueSize q \<longrightarrow> wq_enqueue payload' now rnd q = (None, q))
   \<and>
   (json_parse P body = Some parsed \<and> parseWebhookPayload headers parsed = Inr wp \<and>
    verifySignature P (secret srv) headers body (wp_provider wp) = Inr True \<and>
    shouldProcessWebhook P (filters srv) wp = Inr True \<and>
    webhookQueue srv = Some q \<and> length (wq_queue q) = maxQueueSize q \<longrightarrow>
      fst (handleWebhook P now rnd ip headers body srv)
        = respond 503 [(''Retry-After'', ''60'')] ''Service temporarily unavailable - queue full'' \<and>
      webhookQueue (snd (handleWebhook P now rnd ip headers body srv)) = Some q \<and>
      scheduled (snd (handleWebhook P now rnd ip headers body srv)) = scheduled srv)"
proof -
  have A: "length (wq_queue q) = maxQueueSize q \<longrightarrow> wq_enqueue payload' now rnd q = (None, q)"
    by (simp add: wq_enqueue_def)
  have B: "json_parse P body = Some parsed \<and> parseWebhookPayload headers parsed = Inr wp \<and>
    verifySignature P (secret srv) headers body (wp_provider wp) = Inr True \<and>
    shouldProcessWebhook P (filters srv) wp = Inr True \<and>
    webhookQueue srv = Some q \<and> length (wq_queue q) = maxQueueSize q \<longrightarrow>
      fst (handleWebhook P now rnd ip headers body srv)
        = respond 503 [(''Retry-After'', ''60'')] ''Service temporarily unavailable - queue full'' \<and>
      webhookQueue (snd (handleWebhook P now rnd ip headers body srv)) = Some q \<and>
      scheduled (snd (handleWebhook P now rnd ip headers body srv)) = scheduled srv"
    by (simp add: handleWebhook_def wq_enqueue_def Let_def)
  from A B show ?thesis by blast
qed

theorem queue_at_capacity_witness:
  "length (wq_queue full_queue) = maxQueueSize full_queue \<and>
   wq_enqueue example_payload 11 ''z'' full_queue = (None, full_queue) \<and>
   fst (handleWebhook example_platform 10 ''r'' ''192.0.2.1''
          [(''x-github-event'', ''push''), (''x-hub-signature-256'', signature_main)]
          body_main full_server)
     = respond 503 [(''Retry-After'', ''60'')] ''Service temporarily unavailable - queue full'' \<and>
   webhookQueue (snd (handleWebhook example_platform 10 ''r'' ''192.0.2.1''
          [(''x-github-event'', ''push''), (''x-hub-signature-256'', signature_main)]
          body_main full_server)) = Some full_queue"
proof -
  let ?hs = "[(''x-github-event'', ''push''), (''x-hub-signature-256'', signature_main)]"
  have len: "length (wq_queue full_queue) = maxQueueSize full_queue" by code_simp
  have h: "json_parse example_platform body_main = Some (JObj [(''ref'', JStr ''refs/heads/main'')]) \<and>
     parseWebhookPayload ?hs (JObj [(''ref'', JStr ''refs/heads/main'')]) = Inr example_payload \<and>
     verifySignature example_platform (secret full_server) ?hs body_main (wp_provider example_payload)
       = Inr True \<and>
     shouldProcessWebhook example_platform (filters full_server) example_payload = Inr True \<and>
     webhookQueue full_server = Some full_queue \<and>
     length (wq_queue full_queue) = maxQueueSize full_queue"
    by code_simp
  note T = queue_at_capacity[where q = full_queue and P = example_platform and body = body_main
      and headers = ?hs and srv = full_server and wp = example_payload and now = 10
      and rnd = "''r''" and ip = "''192.0.2.1''"
      and parsed = "JObj [(''ref'', JStr ''refs/heads/main'')]"]
  have a: "wq_enqueue example_payload 11 ''z'' full_queue = (None, full_queue)"
    using queue_at_capacity[where q = full_queue and payload' = example_payload and now = 11
            and rnd = "''z''", THEN conjunct1] len
    by simp
  from T[THEN conjunct2, rule_format, OF h] a len show ?thesis by simp
qed

end
